theory Spec2Isabelle
  imports Complex_Main "HOL-Library.AList" "HOL-Library.Char_ord" "HOL-Library.List_Lexorder"
begin

section \<open>Python values used by the Biconomy connector\<close>

text \<open>
  The connector is Python. Its inputs are decoded JSON documents (nested dicts, lists,
  strings and numbers) and its arithmetic is done on \<open>decimal.Decimal\<close>. This section
  embeds the fragment of Python that the modelled functions use: string methods,
  the \<open>Decimal\<close> constructor and comparisons, truthiness, \<open>dict.get\<close> and \<open>str\<close>.
  Strings are byte strings; the string methods are modelled on ASCII.
\<close>

subsection \<open>Exceptions\<close>

text \<open>
  A task is cancelled by a \<open>CancelledError\<close> raised at the request it awaits.
  \<open>CancelledError\<close> stands for a cancellation from outside, \<open>TimedOut\<close> for the one
  that the expiry of a \<open>timeout\<close> block causes, which the block turns into
  \<open>asyncio.TimeoutError\<close> when the exception leaves it. Inside the block both are a
  \<open>CancelledError\<close>, which is not an instance of Python's \<open>Exception\<close>: a handler
  \<open>except Exception\<close> lets them through. \<open>InvalidOperation\<close>, \<open>DivisionByZero\<close> and
  \<open>Overflow\<close> are the signals of \<open>decimal\<close> that the default context traps.
\<close>

datatype error =
    InvalidOperation
  | DivisionByZero
  | Overflow
  | ValueError
  | AttributeError
  | IOError
  | ValueDuplicationError
  | CancelledError
  | TimedOut

definition is_Exception :: "error \<Rightarrow> bool" where
  "is_Exception e = (e \<noteq> CancelledError \<and> e \<noteq> TimedOut)"

subsection \<open>Strings\<close>

definition lower_char :: "char \<Rightarrow> char" where
  "lower_char c =
     (case map_of (zip ''ABCDEFGHIJKLMNOPQRSTUVWXYZ'' ''abcdefghijklmnopqrstuvwxyz'') c of
        Some d \<Rightarrow> d
      | None \<Rightarrow> c)"

definition upper_char :: "char \<Rightarrow> char" where
  "upper_char c =
     (case map_of (zip ''abcdefghijklmnopqrstuvwxyz'' ''ABCDEFGHIJKLMNOPQRSTUVWXYZ'') c of
        Some d \<Rightarrow> d
      | None \<Rightarrow> c)"

definition py_lower :: "string \<Rightarrow> string" where
  "py_lower s = map lower_char s"

definition py_upper :: "string \<Rightarrow> string" where
  "py_upper s = map upper_char s"

text \<open>The ASCII characters for which \<open>str.isspace\<close> holds: 9 to 13, 28 to 32.\<close>

definition is_space :: "char \<Rightarrow> bool" where
  "is_space c = (let n = (of_char c :: nat) in (9 \<le> n \<and> n \<le> 13) \<or> (28 \<le> n \<and> n \<le> 32))"

definition py_strip :: "string \<Rightarrow> string" where
  "py_strip s = rev (dropWhile is_space (rev (dropWhile is_space s)))"

definition is_digit :: "char \<Rightarrow> bool" where
  "is_digit c = (c \<in> set ''0123456789'')"

definition py_isdigit :: "string \<Rightarrow> bool" where
  "py_isdigit s = (s \<noteq> [] \<and> list_all is_digit s)"

text \<open>
  Numbers read from digits are integers, whose arithmetic is binary, so that long digit
  strings evaluate quickly.
\<close>

definition digit_val :: "char \<Rightarrow> int" where
  "digit_val c =
     (case map_of (zip ''0123456789'' [0, 1, 2, 3, 4, 5, 6, 7, 8, 9]) c of
        Some n \<Rightarrow> n
      | None \<Rightarrow> 0)"

definition int_of_digits :: "string \<Rightarrow> int" where
  "int_of_digits s = foldl (\<lambda>a c. 10 * a + digit_val c) 0 s"

function str_of_pos :: "int \<Rightarrow> string" where
  "str_of_pos n =
     (if n < 10 then [''0123456789'' ! nat n]
      else str_of_pos (n div 10) @ [''0123456789'' ! nat (n mod 10)])"
  by pat_completeness auto
termination
  by (relation "measure nat") auto

declare str_of_pos.simps [simp del]

definition str_of_int :: "int \<Rightarrow> string" where
  "str_of_int i = (if i < 0 then CHR ''-'' # str_of_pos (- i) else str_of_pos i)"

definition str_of_nat :: "nat \<Rightarrow> string" where
  "str_of_nat n = str_of_int (int n)"

text \<open>
  \<open>s.split(c, 1)\<close> and \<open>s.rsplit(c, 1)\<close> return one piece when \<open>c\<close> does not occur
  (\<open>None\<close> here) and otherwise the two pieces around the first, respectively the last,
  occurrence.
\<close>

definition split1 :: "char \<Rightarrow> string \<Rightarrow> (string \<times> string) option" where
  "split1 c s =
     (if c \<in> set s
      then Some (takeWhile (\<lambda>x. x \<noteq> c) s, tl (dropWhile (\<lambda>x. x \<noteq> c) s))
      else None)"

definition rsplit1 :: "char \<Rightarrow> string \<Rightarrow> (string \<times> string) option" where
  "rsplit1 c s =
     (if c \<in> set s
      then Some (rev (tl (dropWhile (\<lambda>x. x \<noteq> c) (rev s))), rev (takeWhile (\<lambda>x. x \<noteq> c) (rev s)))
      else None)"

fun join :: "string \<Rightarrow> string list \<Rightarrow> string" where
  "join sep [] = []"
| "join sep [x] = x"
| "join sep (x # y # ys) = x @ sep @ join sep (y # ys)"

subsection \<open>Decimal\<close>

text \<open>
  A \<open>Decimal\<close> is a finite number, a signed infinity (\<open>True\<close> for the negative one) or a
  NaN (\<open>True\<close> for a signalling one). A finite \<open>Decimal\<close> is represented by its value, a
  rational; the sign of a zero and the exponent of the representation, which do not
  change the value, are not kept.
\<close>

datatype decimal = Finite rat | Infinity bool | NotANumber bool

definition scale10 :: "rat \<Rightarrow> int \<Rightarrow> rat" where
  "scale10 q e = (if 0 \<le> e then q * 10 ^ nat e else q / 10 ^ nat (- e))"

definition parse_exponent :: "string \<Rightarrow> int option" where
  "parse_exponent s =
     (case s of
        [] \<Rightarrow> None
      | c # r \<Rightarrow>
          if c = CHR ''-'' then (if py_isdigit r then Some (- int_of_digits r) else None)
          else if c = CHR ''+'' then (if py_isdigit r then Some (int_of_digits r) else None)
          else if py_isdigit s then Some (int_of_digits s)
          else None)"

text \<open>
  The unsigned numeric strings of the \<open>decimal\<close> module, on lower-cased input: digits
  with an optional fractional part (at least one digit in all) and an optional exponent.
\<close>

definition parse_number :: "string \<Rightarrow> rat option" where
  "parse_number s =
     (let ip = takeWhile is_digit s;
          r1 = dropWhile is_digit s;
          has_point = (r1 \<noteq> [] \<and> hd r1 = CHR ''.'');
          fp = (if has_point then takeWhile is_digit (tl r1) else []);
          r2 = (if has_point then dropWhile is_digit (tl r1) else r1);
          m = of_int (int_of_digits (ip @ fp))
      in if ip = [] \<and> fp = [] then None
         else (case r2 of
                 [] \<Rightarrow> Some (scale10 m (- int (length fp)))
               | c # ex \<Rightarrow>
                   if c = CHR ''e''
                   then (case parse_exponent ex of
                           None \<Rightarrow> None
                         | Some e \<Rightarrow> Some (scale10 m (e - int (length fp))))
                   else None))"

definition parse_unsigned :: "string \<Rightarrow> decimal option" where
  "parse_unsigned s =
     (if s = ''inf'' \<or> s = ''infinity'' then Some (Infinity False)
      else if take 3 s = ''nan'' \<and> list_all is_digit (drop 3 s) then Some (NotANumber False)
      else if take 4 s = ''snan'' \<and> list_all is_digit (drop 4 s) then Some (NotANumber True)
      else map_option Finite (parse_number s))"

fun dec_neg :: "decimal \<Rightarrow> decimal" where
  "dec_neg (Finite q) = Finite (- q)"
| "dec_neg (Infinity n) = Infinity (\<not> n)"
| "dec_neg (NotANumber s) = NotANumber s"

text \<open>
  \<open>Decimal(s)\<close> for a string \<open>s\<close>: surrounding whitespace is stripped, underscores are
  removed, case is ignored. \<open>None\<close> stands for the \<open>InvalidOperation\<close> that the
  constructor raises on any other string.
\<close>

definition Decimal_of_string :: "string \<Rightarrow> decimal option" where
  "Decimal_of_string raw =
     (let s = py_lower (filter (\<lambda>c. c \<noteq> CHR ''_'') (py_strip raw))
      in case s of
           [] \<Rightarrow> None
         | c # r \<Rightarrow>
             if c = CHR ''-'' then map_option dec_neg (parse_unsigned r)
             else if c = CHR ''+'' then parse_unsigned r
             else parse_unsigned s)"

text \<open>
  Comparisons. An ordering comparison with any NaN raises \<open>InvalidOperation\<close>; an
  equality test raises it for a signalling NaN only and is false for a quiet one.
\<close>

fun dec_eq :: "decimal \<Rightarrow> decimal \<Rightarrow> error + bool" where
  "dec_eq (NotANumber s) (NotANumber t) = (if s \<or> t then Inl InvalidOperation else Inr False)"
| "dec_eq (NotANumber s) (Finite b) = (if s then Inl InvalidOperation else Inr False)"
| "dec_eq (NotANumber s) (Infinity b) = (if s then Inl InvalidOperation else Inr False)"
| "dec_eq (Finite a) (NotANumber t) = (if t then Inl InvalidOperation else Inr False)"
| "dec_eq (Infinity a) (NotANumber t) = (if t then Inl InvalidOperation else Inr False)"
| "dec_eq (Finite a) (Finite b) = Inr (a = b)"
| "dec_eq (Infinity a) (Infinity b) = Inr (a = b)"
| "dec_eq (Finite a) (Infinity b) = Inr False"
| "dec_eq (Infinity a) (Finite b) = Inr False"

fun dec_lt :: "decimal \<Rightarrow> decimal \<Rightarrow> error + bool" where
  "dec_lt (NotANumber s) y = Inl InvalidOperation"
| "dec_lt (Finite a) (NotANumber t) = Inl InvalidOperation"
| "dec_lt (Infinity a) (NotANumber t) = Inl InvalidOperation"
| "dec_lt (Finite a) (Finite b) = Inr (a < b)"
| "dec_lt (Finite a) (Infinity n) = Inr (\<not> n)"
| "dec_lt (Infinity n) (Finite b) = Inr n"
| "dec_lt (Infinity n) (Infinity m) = Inr (n \<and> \<not> m)"

definition dec_gt :: "decimal \<Rightarrow> decimal \<Rightarrow> error + bool" where
  "dec_gt x y = dec_lt y x"

definition dec_le :: "decimal \<Rightarrow> decimal \<Rightarrow> error + bool" where
  "dec_le x y = (case dec_lt y x of Inl e \<Rightarrow> Inl e | Inr b \<Rightarrow> Inr (\<not> b))"

text \<open>
  The default context: a precision of 28 significant digits, rounding half to even, the
  largest exponent 999999 and the smallest exponent -999999. The result of an arithmetic
  operation is the exact result rounded by the context: to 28 significant digits, or,
  for a subnormal result, to a multiple of \<open>10 ^ Etiny\<close>; a rounded result whose
  exponent exceeds the largest one raises \<open>Overflow\<close>.
\<close>

definition EMAX :: int where
  "EMAX = 999999"

definition ETINY :: int where
  "ETINY = - 999999 - 27"

definition pow10 :: "int \<Rightarrow> rat" where
  "pow10 k = (if 0 \<le> k then 10 ^ nat k else 1 / 10 ^ nat (- k))"

function ndigits :: "int \<Rightarrow> int" where
  "ndigits n = (if n < 10 then 1 else 1 + ndigits (n div 10))"
  by pat_completeness auto
termination
  by (relation "measure nat") auto

declare ndigits.simps [simp del]

text \<open>
  The adjusted exponent of a nonzero number \<open>x\<close>: the \<open>e\<close> with
  \<open>10 ^ e \<le> \<bar>x\<bar> < 10 ^ (e + 1)\<close>, found from the digit counts of the numerator and the
  denominator.
\<close>

definition adjusted :: "rat \<Rightarrow> int" where
  "adjusted x =
     (case quotient_of \<bar>x\<bar> of
        (p, q) \<Rightarrow>
          (let d = ndigits p - ndigits q
           in if pow10 d \<le> \<bar>x\<bar> then d else d - 1))"

definition round_half_even :: "rat \<Rightarrow> int" where
  "round_half_even y =
     (let f = \<lfloor>y\<rfloor>; r = y - of_int f
      in if r < 1 / 2 then f
         else if 1 / 2 < r then f + 1
         else if even f then f else f + 1)"

definition round_context :: "rat \<Rightarrow> error + decimal" where
  "round_context x =
     (if x = 0 then Inr (Finite 0)
      else
        (let q = max (adjusted x - 27) ETINY;
             y = of_int (round_half_even (x / pow10 q)) * pow10 q
         in if y \<noteq> 0 \<and> EMAX < adjusted y then Inl Overflow else Inr (Finite y)))"

text \<open>
  Arithmetic. A signalling NaN operand raises; a quiet NaN operand gives a quiet NaN;
  \<open>Infinity - Infinity\<close>, \<open>0 * Infinity\<close>, \<open>Infinity / Infinity\<close> and \<open>0 / 0\<close> raise
  \<open>InvalidOperation\<close>; a nonzero number divided by zero raises \<open>DivisionByZero\<close>; a
  finite result is rounded by the context.
\<close>

fun dec_add :: "decimal \<Rightarrow> decimal \<Rightarrow> error + decimal" where
  "dec_add (NotANumber s) (NotANumber t) = (if s \<or> t then Inl InvalidOperation else Inr (NotANumber False))"
| "dec_add (NotANumber s) (Finite b) = (if s then Inl InvalidOperation else Inr (NotANumber False))"
| "dec_add (NotANumber s) (Infinity b) = (if s then Inl InvalidOperation else Inr (NotANumber False))"
| "dec_add (Finite a) (NotANumber t) = (if t then Inl InvalidOperation else Inr (NotANumber False))"
| "dec_add (Infinity a) (NotANumber t) = (if t then Inl InvalidOperation else Inr (NotANumber False))"
| "dec_add (Finite a) (Finite b) = round_context (a + b)"
| "dec_add (Finite a) (Infinity n) = Inr (Infinity n)"
| "dec_add (Infinity n) (Finite b) = Inr (Infinity n)"
| "dec_add (Infinity n) (Infinity m) = (if n = m then Inr (Infinity n) else Inl InvalidOperation)"

definition dec_sub :: "decimal \<Rightarrow> decimal \<Rightarrow> error + decimal" where
  "dec_sub x y = dec_add x (dec_neg y)"

fun dec_mul :: "decimal \<Rightarrow> decimal \<Rightarrow> error + decimal" where
  "dec_mul (NotANumber s) (NotANumber t) = (if s \<or> t then Inl InvalidOperation else Inr (NotANumber False))"
| "dec_mul (NotANumber s) (Finite b) = (if s then Inl InvalidOperation else Inr (NotANumber False))"
| "dec_mul (NotANumber s) (Infinity b) = (if s then Inl InvalidOperation else Inr (NotANumber False))"
| "dec_mul (Finite a) (NotANumber t) = (if t then Inl InvalidOperation else Inr (NotANumber False))"
| "dec_mul (Infinity a) (NotANumber t) = (if t then Inl InvalidOperation else Inr (NotANumber False))"
| "dec_mul (Finite a) (Finite b) = round_context (a * b)"
| "dec_mul (Finite a) (Infinity n) = (if a = 0 then Inl InvalidOperation else Inr (Infinity ((a < 0) \<noteq> n)))"
| "dec_mul (Infinity n) (Finite b) = (if b = 0 then Inl InvalidOperation else Inr (Infinity (n \<noteq> (b < 0))))"
| "dec_mul (Infinity n) (Infinity m) = Inr (Infinity (n \<noteq> m))"

fun dec_div :: "decimal \<Rightarrow> decimal \<Rightarrow> error + decimal" where
  "dec_div (NotANumber s) (NotANumber t) = (if s \<or> t then Inl InvalidOperation else Inr (NotANumber False))"
| "dec_div (NotANumber s) (Finite b) = (if s then Inl InvalidOperation else Inr (NotANumber False))"
| "dec_div (NotANumber s) (Infinity b) = (if s then Inl InvalidOperation else Inr (NotANumber False))"
| "dec_div (Finite a) (NotANumber t) = (if t then Inl InvalidOperation else Inr (NotANumber False))"
| "dec_div (Infinity a) (NotANumber t) = (if t then Inl InvalidOperation else Inr (NotANumber False))"
| "dec_div (Finite a) (Finite b) =
     (if b = 0 then (if a = 0 then Inl InvalidOperation else Inl DivisionByZero)
      else round_context (a / b))"
| "dec_div (Finite a) (Infinity n) = Inr (Finite 0)"
| "dec_div (Infinity n) (Finite b) = Inr (Infinity (n \<noteq> (b < 0)))"
| "dec_div (Infinity n) (Infinity m) = Inl InvalidOperation"

fun dec_abs :: "decimal \<Rightarrow> decimal" where
  "dec_abs (Finite q) = Finite \<bar>q\<bar>"
| "dec_abs (Infinity n) = Infinity False"
| "dec_abs (NotANumber s) = NotANumber s"

text \<open>
  The builtin \<open>abs\<close> goes through the context: it raises on a signalling NaN and rounds
  a finite value, where the method \<open>copy_abs\<close> (\<open>dec_abs\<close>) returns the value as it is.
\<close>

definition dec_abs_op :: "decimal \<Rightarrow> error + decimal" where
  "dec_abs_op x =
     (case x of
        Finite q \<Rightarrow> round_context \<bar>q\<bar>
      | Infinity n \<Rightarrow> Inr (Infinity False)
      | NotANumber s \<Rightarrow> if s then Inl InvalidOperation else Inr (NotANumber False))"

text \<open>The builtin \<open>max(a, b)\<close> returns \<open>b\<close> when \<open>b > a\<close> and \<open>a\<close> otherwise.\<close>

definition dec_max :: "decimal \<Rightarrow> decimal \<Rightarrow> error + decimal" where
  "dec_max a b = (case dec_gt b a of Inl e \<Rightarrow> Inl e | Inr g \<Rightarrow> Inr (if g then b else a))"

subsection \<open>Decoded JSON\<close>

text \<open>
  A float is represented by its \<open>repr\<close> (such as \<open>1.5\<close>, \<open>1e-07\<close>, \<open>nan\<close>), which
  determines it; its numeric value is the one \<open>Decimal\<close> reads from that text. A dict is
  an association list in insertion order; a lookup takes the first binding of a key.
\<close>

datatype json =
    JNone
  | JBool bool
  | JInt int
  | JFloat string
  | JStr string
  | JList "json list"
  | JDict "(string \<times> json) list"

type_synonym pydict = "(string \<times> json) list"

definition float_is_zero :: "string \<Rightarrow> bool" where
  "float_is_zero r = (Decimal_of_string r = Some (Finite 0))"

fun py_truthy :: "json \<Rightarrow> bool" where
  "py_truthy JNone = False"
| "py_truthy (JBool b) = b"
| "py_truthy (JInt i) = (i \<noteq> 0)"
| "py_truthy (JFloat r) = (\<not> float_is_zero r)"
| "py_truthy (JStr s) = (s \<noteq> [])"
| "py_truthy (JList xs) = (xs \<noteq> [])"
| "py_truthy (JDict kvs) = (kvs \<noteq> [])"

text \<open>\<open>a or b\<close> on values; \<open>d.get(k)\<close>; \<open>k in d\<close>.\<close>

definition py_or :: "json \<Rightarrow> json \<Rightarrow> json" where
  "py_or a b = (if py_truthy a then a else b)"

definition dict_get :: "pydict \<Rightarrow> string \<Rightarrow> json" where
  "dict_get d k = (case map_of d k of None \<Rightarrow> JNone | Some v \<Rightarrow> v)"

definition has_key :: "pydict \<Rightarrow> string \<Rightarrow> bool" where
  "has_key d k = (map_of d k \<noteq> None)"

text \<open>\<open>v == n\<close> for an integer \<open>n\<close>: true for the int, the bool and the float of that value.\<close>

fun py_eq_int :: "json \<Rightarrow> int \<Rightarrow> bool" where
  "py_eq_int (JInt i) n = (i = n)"
| "py_eq_int (JBool b) n = ((if b then 1 else 0) = n)"
| "py_eq_int (JFloat r) n = (Decimal_of_string r = Some (Finite (of_int n)))"
| "py_eq_int v n = False"

text \<open>
  \<open>repr\<close> of a string: single quotes, unless the string has a single quote and no double
  quote; backslash, the quote, tab, newline and carriage return are escaped, other
  control characters are written \<open>\xNN\<close>.
\<close>

definition hex2 :: "nat \<Rightarrow> string" where
  "hex2 n = [''0123456789abcdef'' ! (n div 16), ''0123456789abcdef'' ! (n mod 16)]"

definition repr_char :: "char \<Rightarrow> char \<Rightarrow> string" where
  "repr_char q c =
     (let n = (of_char c :: nat)
      in if c = CHR 0x5C then [CHR 0x5C, CHR 0x5C]
         else if c = q then [CHR 0x5C, q]
         else if n = 9 then [CHR 0x5C, CHR ''t'']
         else if n = 10 then [CHR 0x5C, CHR ''n'']
         else if n = 13 then [CHR 0x5C, CHR ''r'']
         else if n < 32 \<or> n = 127 then [CHR 0x5C, CHR ''x''] @ hex2 n
         else [c])"

definition repr_str :: "string \<Rightarrow> string" where
  "repr_str s =
     (let q = (if CHR 0x27 \<in> set s \<and> CHR 0x22 \<notin> set s then CHR 0x22 else CHR 0x27)
      in [q] @ concat (map (repr_char q) s) @ [q])"

fun py_repr :: "json \<Rightarrow> string"
  and py_repr_list :: "json list \<Rightarrow> string list"
  and py_repr_items :: "(string \<times> json) list \<Rightarrow> string list" where
  "py_repr JNone = ''None''"
| "py_repr (JBool b) = (if b then ''True'' else ''False'')"
| "py_repr (JInt i) = str_of_int i"
| "py_repr (JFloat r) = r"
| "py_repr (JStr s) = repr_str s"
| "py_repr (JList xs) = ''['' @ join '', '' (py_repr_list xs) @ '']''"
| "py_repr (JDict kvs) = ''{'' @ join '', '' (py_repr_items kvs) @ ''}''"
| "py_repr_list [] = []"
| "py_repr_list (x # xs) = py_repr x # py_repr_list xs"
| "py_repr_items [] = []"
| "py_repr_items ((k, v) # kvs) = (repr_str k @ '': '' @ py_repr v) # py_repr_items kvs"

definition py_str :: "json \<Rightarrow> string" where
  "py_str v = (case v of JStr s \<Rightarrow> s | _ \<Rightarrow> py_repr v)"

section \<open>Data model of the connector\<close>

datatype trade_type = BUY | SELL | RANGE

datatype order_state = OPEN | FILLED | CANCELED | FAILED | PENDING_CANCEL

text \<open>
  The fields of \<open>InFlightOrder\<close> that the connector reads. Timestamps are floats in the
  source and rationals here.
\<close>

record in_flight_order =
  client_order_id :: string
  exchange_order_id :: "string option"
  trading_pair :: string
  trade_type :: trade_type
  amount :: decimal
  price :: "decimal option"
  creation_timestamp :: rat
  is_done :: bool
  quote_asset :: string

text \<open>\<open>OrderUpdate\<close>, without its timestamp.\<close>

record order_update =
  ou_trading_pair :: string
  ou_new_state :: order_state
  ou_client_order_id :: "string option"
  ou_exchange_order_id :: "string option"

text \<open>
  \<open>CancellationResult(order_id, success)\<close>. The order id is a string, except for the
  results with an exception object in its place, which \<open>cancel_all\<close> can build from the
  outcome of a cancelled single cancel.
\<close>

datatype cancellation_result =
    CancellationResult string bool
  | CancellationResultOfException error bool

text \<open>
  The warnings of \<open>_update_balances\<close> and \<open>_build_balance_fallback_entries\<close>, in the
  order of their text in the source.
\<close>

datatype warning = NoUsableAssets | EntriesWithoutAssets | DefaultingToZero

text \<open>
  The state of \<open>BiconomyExchange\<close> and of its collaborators as far as the connector
  touches them:
  \<^item> \<open>order_updates\<close> are the updates handed to \<open>_order_tracker.process_order_update\<close>;
  \<^item> \<open>warnings\<close> are the warnings of the balance reconciler handed to the logger;
  \<^item> \<open>requests\<close> are the path and the data of the calls of \<open>_api_post\<close> made so far;
  \<^item> \<open>rest\<close> scripts the venue: the outcome of each coming \<open>_api_post\<close>, in order. The
    outcome \<open>Inl TimedOut\<close> is the expiry of the caller's timeout while the request is
    awaited, \<open>Inl CancelledError\<close> a cancellation of the task from outside; when the
    script is used up the task is cancelled from outside;
  \<^item> \<open>cancels\<close> scripts the outcomes of the base class's \<open>_execute_cancel\<close>.
\<close>

record exchange =
  trading_pairs :: "string list"
  exchange_trading_pair_map :: "(string \<times> string) list"
  empty_balance_logged :: bool
  account_balances :: "(string \<times> decimal) list"
  account_available_balances :: "(string \<times> decimal) list"
  current_timestamp :: rat
  order_updates :: "order_update list"
  warnings :: "warning list"
  requests :: "(string \<times> json) list"
  rest :: "(error + json) list"
  cancels :: "(error + bool) list"

text \<open>
  \<open>_api_post(path_url, data)\<close>: the request is recorded and the venue's next scripted
  outcome is returned.
\<close>

definition api_post :: "string \<Rightarrow> json \<Rightarrow> exchange \<Rightarrow> (error + json) \<times> exchange" where
  "api_post path_url data st =
     (case rest st of
        [] \<Rightarrow> (Inl CancelledError, st\<lparr>requests := requests st @ [(path_url, data)]\<rparr>)
      | r # rs \<Rightarrow> (r, st\<lparr>requests := requests st @ [(path_url, data)], rest := rs\<rparr>))"

definition USER_BALANCES_PATH_URL :: string where
  "USER_BALANCES_PATH_URL = ''/private/user''"

definition BULK_CANCEL_PATH_URL :: string where
  "BULK_CANCEL_PATH_URL = ''/private/trade/cancel_batch''"

definition PENDING_ORDERS_PATH_URL :: string where
  "PENDING_ORDERS_PATH_URL = ''/private/order/pending''"

definition FINISHED_ORDERS_PATH_URL :: string where
  "FINISHED_ORDERS_PATH_URL = ''/private/order/finished''"

definition ORDER_DEALS_PATH_URL :: string where
  "ORDER_DEALS_PATH_URL = ''/private/order/deals''"

definition process_order_update :: "order_update \<Rightarrow> exchange \<Rightarrow> exchange" where
  "process_order_update u st = st\<lparr>order_updates := order_updates st @ [u]\<rparr>"

section \<open>Trading pairs and exchange symbols\<close>

definition split_trading_pair :: "string \<Rightarrow> error + (string \<times> string)" where
  "split_trading_pair tp =
     (case rsplit1 CHR ''-'' tp of
        None \<Rightarrow> Inl ValueError
      | Some (base, quote) \<Rightarrow>
          if base = [] \<or> quote = [] then Inl ValueError else Inr (base, quote))"

definition combine_trading_pair :: "string \<Rightarrow> string \<Rightarrow> error + string" where
  "combine_trading_pair base0 quote0 =
     (let base = py_strip base0; quote = py_strip quote0
      in if base = [] \<or> quote = [] then Inl ValueError
         else Inr (base @ ''-'' @ quote))"

text \<open>
  \<open>_exchange_trading_pair_map\<close> is a \<open>bidict\<close> from exchange symbol to trading pair.
  Setting an item is a no-op when the binding is there already, raises
  \<open>ValueDuplicationError\<close> when the value is bound to another key, and otherwise binds
  the key, replacing its old value.
\<close>

definition bidict_get :: "(string \<times> string) list \<Rightarrow> string \<Rightarrow> string option" where
  "bidict_get m k = map_of m k"

definition bidict_inverse_get :: "(string \<times> string) list \<Rightarrow> string \<Rightarrow> string option" where
  "bidict_inverse_get m v = map_of (map (\<lambda>(k, w). (w, k)) m) v"

definition bidict_setitem ::
  "(string \<times> string) list \<Rightarrow> string \<Rightarrow> string \<Rightarrow> error + (string \<times> string) list" where
  "bidict_setitem m k v =
     (if map_of m k = Some v then Inr m
      else if v \<in> snd ` set m then Inl ValueDuplicationError
      else Inr (AList.update k v m))"

definition exchange_symbol_associated_to_pair ::
  "string \<Rightarrow> exchange \<Rightarrow> (error + string) \<times> exchange" where
  "exchange_symbol_associated_to_pair tp st =
     (case bidict_inverse_get (exchange_trading_pair_map st) tp of
        Some symbol \<Rightarrow> (Inr symbol, st)
      | None \<Rightarrow>
          (case rsplit1 CHR ''-'' tp of
             None \<Rightarrow> (Inl ValueError, st)
           | Some (base, quote) \<Rightarrow>
               (let symbol = base @ ''_'' @ quote
                in case bidict_setitem (exchange_trading_pair_map st) symbol tp of
                     Inl e \<Rightarrow> (Inl e, st)
                   | Inr m \<Rightarrow> (Inr symbol, st\<lparr>exchange_trading_pair_map := m\<rparr>))))"

definition trading_pair_associated_to_exchange_symbol ::
  "string \<Rightarrow> exchange \<Rightarrow> (error + string) \<times> exchange" where
  "trading_pair_associated_to_exchange_symbol symbol st =
     (case bidict_get (exchange_trading_pair_map st) symbol of
        Some tp \<Rightarrow> (Inr tp, st)
      | None \<Rightarrow>
          (case split1 CHR ''_'' symbol of
             None \<Rightarrow> (Inl ValueError, st)
           | Some (base, quote) \<Rightarrow>
               (case combine_trading_pair base quote of
                  Inl e \<Rightarrow> (Inl e, st)
                | Inr tp \<Rightarrow>
                    (case bidict_setitem (exchange_trading_pair_map st) symbol tp of
                       Inl e \<Rightarrow> (Inl e, st)
                     | Inr m \<Rightarrow> (Inr tp, st\<lparr>exchange_trading_pair_map := m\<rparr>)))))"

section \<open>User stream: answering the venue's ping\<close>

text \<open>
  The fields of \<open>BiconomyAPIUserStreamDataSource\<close>. \<open>ws_sent\<close> lists the payloads handed
  to \<open>ws.send\<close>, in order.
\<close>

record user_stream =
  message_id :: int
  last_event_timestamp :: rat
  last_client_ping_ts :: rat
  last_server_ping_ts :: rat
  last_pong_sent_ts :: rat
  ws_sent :: "json list"

definition next_message_id :: "user_stream \<Rightarrow> int \<times> user_stream" where
  "next_message_id us = (message_id us + 1, us\<lparr>message_id := message_id us + 1\<rparr>)"

text \<open>
  \<open>_respond_to_ping\<close>. \<open>t1\<close> and \<open>t2\<close> are the two readings of \<open>time.time()\<close> and
  \<open>outcome\<close> is what \<open>ws.send\<close> does: \<open>None\<close> when it returns, the exception when it
  raises. The default of \<open>message.get("id", ...)\<close> is evaluated in every case, so a
  message id is consumed also when the ping carries its own.
\<close>

definition respond_to_ping ::
  "rat \<Rightarrow> rat \<Rightarrow> error option \<Rightarrow> pydict \<Rightarrow> user_stream \<Rightarrow> (error + unit) \<times> user_stream" where
  "respond_to_ping t1 t2 outcome message us =
     (let us1 = us\<lparr>last_server_ping_ts := t1\<rparr>;
          (fresh, us2) = next_message_id us1;
          pong_request = JDict [(''method'', JStr ''server.pong''),
                                (''params'', JList []),
                                (''id'', if has_key message ''id'' then dict_get message ''id''
                                         else JInt fresh)];
          us3 = us2\<lparr>ws_sent := ws_sent us2 @ [pong_request]\<rparr>
      in case outcome of
           Some e \<Rightarrow> (Inl e, us3)
         | None \<Rightarrow> (Inr (), us3\<lparr>last_pong_sent_ts := t2\<rparr>))"

section \<open>Payload normaliser\<close>

text \<open>
  \<open>_decimal_from_value\<close>: \<open>None\<close> is zero and a value that \<open>Decimal(str(value))\<close>
  rejects is zero. A decoded JSON document holds no \<open>Decimal\<close>, so the branch that
  returns a \<open>Decimal\<close> unchanged has no case here; where the source passes a computed
  \<open>Decimal\<close> to this function, the caller's model uses the value directly.
\<close>

definition decimal_from_value :: "json \<Rightarrow> decimal" where
  "decimal_from_value v =
     (case v of
        JNone \<Rightarrow> Finite 0
      | _ \<Rightarrow> (case Decimal_of_string (py_str v) of
                None \<Rightarrow> Finite 0
              | Some d \<Rightarrow> d))"

text \<open>The unguarded \<open>Decimal(str(value))\<close>.\<close>

definition Decimal_of_value :: "json \<Rightarrow> error + decimal" where
  "Decimal_of_value v =
     (case Decimal_of_string (py_str v) of
        None \<Rightarrow> Inl InvalidOperation
      | Some d \<Rightarrow> Inr d)"

definition extract_result :: "json \<Rightarrow> error + json" where
  "extract_result response =
     (case response of
        JDict d \<Rightarrow>
          (let code = dict_get d ''code''
           in if py_eq_int code 0 \<or> code = JStr ''0'' \<or> code = JNone
              then Inr (case map_of d ''result'' of None \<Rightarrow> response | Some r \<Rightarrow> r)
              else Inl IOError)
      | _ \<Rightarrow> Inl IOError)"

text \<open>
  The loop of \<open>_extract_entries\<close> over the keys \<open>result\<close>, \<open>data\<close>, \<open>pairs\<close>,
  \<open>symbols\<close>: the value of the first of these keys that is present and holds a list or
  a dict.
\<close>

fun first_container :: "pydict \<Rightarrow> string list \<Rightarrow> json option" where
  "first_container d [] = None"
| "first_container d (k # ks) =
     (case map_of d k of
        Some (JList xs) \<Rightarrow> Some (JList xs)
      | Some (JDict e) \<Rightarrow> Some (JDict e)
      | _ \<Rightarrow> first_container d ks)"

function extract_entries :: "json \<Rightarrow> json list" where
  "extract_entries (JDict d) =
     (case first_container d [''result'', ''data'', ''pairs'', ''symbols''] of
        Some (JList xs) \<Rightarrow> xs
      | Some (JDict e) \<Rightarrow> extract_entries (JDict e)
      | _ \<Rightarrow> [JDict d])"
| "extract_entries (JList xs) = xs"
| "extract_entries JNone = []"
| "extract_entries (JBool b) = []"
| "extract_entries (JInt i) = []"
| "extract_entries (JFloat r) = []"
| "extract_entries (JStr s) = []"
  by pat_completeness auto
termination
proof (relation "measure size")
  show "wf (measure (size :: json \<Rightarrow> nat))" by simp
next
  fix d :: pydict and x2 e
  assume a: "first_container d [''result'', ''data'', ''pairs'', ''symbols''] = Some x2"
    and b: "x2 = JDict e"
  have mem: "size v < size (JDict d)" if "map_of d k = Some v" for k v
  proof -
    from that have "(k, v) \<in> set d" by (rule map_of_SomeD)
    then show ?thesis by (induction d) auto
  qed
  have fc: "size v < size (JDict d)" if "first_container d ks = Some v" for ks v
    using that by (induction ks) (auto split: option.splits json.splits dest: mem)
  from a b have "size (JDict e) < size (JDict d)" by (blast intro: fc)
  then show "(JDict e, JDict d) \<in> measure size" by simp
qed

text \<open>\<open>_order_state_from_status\<close>, with the table \<open>ORDER_STATE_MAP\<close> of the constants.\<close>

definition ORDER_STATE_MAP :: "int \<Rightarrow> order_state option" where
  "ORDER_STATE_MAP = map_of [(1, OPEN), (2, OPEN), (3, FILLED)]"

text \<open>\<open>isinstance(v, int)\<close> holds for ints and for bools, which count as 1 and 0.\<close>

fun as_int :: "json \<Rightarrow> int option" where
  "as_int (JInt i) = Some i"
| "as_int (JBool b) = Some (if b then 1 else 0)"
| "as_int v = None"

definition order_state_from_status :: "pydict \<Rightarrow> error + order_state" where
  "order_state_from_status order_payload =
     (let status = dict_get order_payload ''status''
      in case (case as_int status of None \<Rightarrow> None | Some i \<Rightarrow> ORDER_STATE_MAP i) of
           Some st \<Rightarrow> Inr st
         | None \<Rightarrow>
             (let lowered = (case status of JStr s \<Rightarrow> Some (py_lower s) | _ \<Rightarrow> None)
              in if lowered \<in> Some ` set [''filled'', ''finished'', ''done'', ''success'']
                 then Inr FILLED
                 else if lowered \<in> Some ` set [''cancelled'', ''canceled'', ''cancel'']
                 then Inr CANCELED
                 else if py_eq_int (dict_get order_payload ''is_cancel'') 1
                 then Inr CANCELED
                 else
                   (let remaining_value =
                          py_or (py_or (py_or (dict_get order_payload ''left'')
                                              (dict_get order_payload ''remain''))
                                       (dict_get order_payload ''unfilled_amount''))
                                (dict_get order_payload ''remain_amount'')
                    in if remaining_value \<noteq> JNone
                       then (case dec_eq (decimal_from_value remaining_value) (Finite 0) of
                               Inl e \<Rightarrow> Inl e
                             | Inr z \<Rightarrow> if z then Inr FILLED else Inr OPEN)
                       else Inr OPEN)))"

section \<open>Balance reconciler\<close>

definition balance_keys :: "string list" where
  "balance_keys = [''available'', ''available_balance'', ''balance'', ''free'', ''total'',
                   ''total_balance'', ''freeze'', ''frozen'', ''locked'', ''other_freeze'']"

definition is_balance_entry :: "pydict \<Rightarrow> bool" where
  "is_balance_entry candidate =
     list_ex (\<lambda>key. case map_of candidate key of
                       None \<Rightarrow> False
                     | Some (JDict m) \<Rightarrow> False
                     | Some v \<Rightarrow> True) balance_keys"

text \<open>\<open>entry_dict.setdefault("asset", parent_asset)\<close>, done when the parent is truthy.\<close>

definition with_parent_asset :: "pydict \<Rightarrow> string option \<Rightarrow> pydict" where
  "with_parent_asset d parent =
     (case parent of
        None \<Rightarrow> d
      | Some a \<Rightarrow> if a \<noteq> [] \<and> \<not> has_key d ''asset'' then d @ [(''asset'', JStr a)] else d)"

fun collect_balance_entries :: "json \<Rightarrow> string option \<Rightarrow> pydict list"
  and collect_balance_list :: "json list \<Rightarrow> string option \<Rightarrow> pydict list"
  and collect_balance_items :: "(string \<times> json) list \<Rightarrow> pydict list" where
  "collect_balance_entries (JList xs) parent = collect_balance_list xs parent"
| "collect_balance_entries (JDict d) parent =
     (if is_balance_entry d then [with_parent_asset d parent] else [])
     @ collect_balance_items d"
| "collect_balance_entries JNone parent = []"
| "collect_balance_entries (JBool b) parent = []"
| "collect_balance_entries (JInt i) parent = []"
| "collect_balance_entries (JFloat r) parent = []"
| "collect_balance_entries (JStr s) parent = []"
| "collect_balance_list [] parent = []"
| "collect_balance_list (x # xs) parent =
     collect_balance_entries x parent @ collect_balance_list xs parent"
| "collect_balance_items [] = []"
| "collect_balance_items ((key, child) # kvs) =
     collect_balance_entries child (Some key) @ collect_balance_items kvs"

text \<open>
  The loop of \<open>_build_balance_fallback_entries\<close> over the configured pairs; a pair that
  \<open>_split_trading_pair\<close> rejects is skipped.
\<close>

fun fallback_assets :: "string list \<Rightarrow> string list" where
  "fallback_assets [] = []"
| "fallback_assets (tp # tps) =
     (case split_trading_pair tp of
        Inl e \<Rightarrow> fallback_assets tps
      | Inr (base, quote) \<Rightarrow> base # quote # fallback_assets tps)"

definition warn :: "warning \<Rightarrow> exchange \<Rightarrow> exchange" where
  "warn w st = st\<lparr>warnings := warnings st @ [w]\<rparr>"

definition build_balance_fallback_entries :: "exchange \<Rightarrow> pydict list \<times> exchange" where
  "build_balance_fallback_entries st =
     (let assets = fallback_assets (trading_pairs st)
      in if assets = [] then ([], st)
         else (map (\<lambda>asset. [(''asset'', JStr asset), (''available'', JStr ''0'')])
                   (sort (remdups assets)),
               if empty_balance_logged st then st
               else (warn DefaultingToZero st)\<lparr>empty_balance_logged := True\<rparr>))"

text \<open>
  \<open>.upper()\<close> on the value that the \<open>or\<close> chain of the asset fields yields: a string,
  or else a truthy value of another type, which has no such method.
\<close>

definition upper_value :: "json \<Rightarrow> error + string" where
  "upper_value v = (case v of JStr s \<Rightarrow> Inr (py_upper s) | _ \<Rightarrow> Inl AttributeError)"

definition set_balance :: "string \<Rightarrow> decimal \<Rightarrow> decimal \<Rightarrow> exchange \<Rightarrow> exchange" where
  "set_balance asset available tot st =
     st\<lparr>account_available_balances := AList.update asset available (account_available_balances st),
        account_balances := AList.update asset tot (account_balances st)\<rparr>"

text \<open>
  The body of the loop of \<open>_update_balances\<close> over the balance entries: \<open>None\<close> when
  the entry has no asset and is skipped, otherwise the asset and its two amounts.
\<close>

definition balance_of_entry :: "pydict \<Rightarrow> error + (string \<times> decimal \<times> decimal) option" where
  "balance_of_entry entry =
     (case upper_value (py_or (py_or (py_or (py_or (dict_get entry ''asset'')
                                                   (dict_get entry ''currency''))
                                            (dict_get entry ''coin''))
                                     (dict_get entry ''symbol''))
                              (JStr [])) of
        Inl e \<Rightarrow> Inl e
      | Inr asset \<Rightarrow>
          if asset = [] then Inr None
          else
            (case Decimal_of_value (py_or (py_or (py_or (dict_get entry ''available'')
                                                        (dict_get entry ''free''))
                                                 (dict_get entry ''available_balance''))
                                          (JStr ''0'')) of
               Inl e \<Rightarrow> Inl e
             | Inr available \<Rightarrow>
                 (case Decimal_of_value (py_or (py_or (py_or (dict_get entry ''freeze'')
                                                             (dict_get entry ''frozen''))
                                                      (dict_get entry ''locked''))
                                               (JStr ''0'')) of
                    Inl e \<Rightarrow> Inl e
                  | Inr frozen \<Rightarrow>
                      (case Decimal_of_value (py_or (py_or (dict_get entry ''other_freeze'')
                                                           (dict_get entry ''other_locked''))
                                                    (JStr ''0'')) of
                         Inl e \<Rightarrow> Inl e
                       | Inr other_frozen \<Rightarrow>
                           (case dec_add available frozen of
                              Inl e \<Rightarrow> Inl e
                            | Inr s \<Rightarrow>
                                (case dec_add s other_frozen of
                                   Inl e \<Rightarrow> Inl e
                                 | Inr tot \<Rightarrow> Inr (Some (asset, available, tot))))))))"

text \<open>
  The loop itself. It returns the assets it has stored (\<open>remote_assets\<close>); an exception
  leaves the balances of the entries before it in place.
\<close>

fun apply_balance_entries ::
  "pydict list \<Rightarrow> string list \<Rightarrow> exchange \<Rightarrow> (error + string list) \<times> exchange" where
  "apply_balance_entries [] remote st = (Inr remote, st)"
| "apply_balance_entries (entry # entries) remote st =
     (case balance_of_entry entry of
        Inl e \<Rightarrow> (Inl e, st)
      | Inr None \<Rightarrow> apply_balance_entries entries remote st
      | Inr (Some (asset, available, tot)) \<Rightarrow>
          apply_balance_entries entries (remote @ [asset]) (set_balance asset available tot st))"

text \<open>
  The second loop of \<open>_update_balances\<close>, over fallback entries, which the connector
  has built itself: \<open>entry["asset"]\<close> is there and is a string.
\<close>

fun apply_fallback_entries ::
  "pydict list \<Rightarrow> string list \<Rightarrow> exchange \<Rightarrow> (error + string list) \<times> exchange" where
  "apply_fallback_entries [] remote st = (Inr remote, st)"
| "apply_fallback_entries (entry # entries) remote st =
     (case map_of entry ''asset'' of
        Some (JStr asset) \<Rightarrow>
          (case Decimal_of_value (case map_of entry ''available'' of
                                     None \<Rightarrow> JStr ''0''
                                   | Some v \<Rightarrow> v) of
             Inl e \<Rightarrow> (Inl e, st)
           | Inr available \<Rightarrow>
               apply_fallback_entries entries (remote @ [asset])
                 (set_balance asset available available st))
      | _ \<Rightarrow> (Inl ValueError, st))"

definition drop_assets :: "string list \<Rightarrow> exchange \<Rightarrow> exchange" where
  "drop_assets assets st =
     st\<lparr>account_available_balances :=
          foldl (\<lambda>m a. AList.delete a m) (account_available_balances st) assets,
        account_balances :=
          foldl (\<lambda>m a. AList.delete a m) (account_balances st) assets\<rparr>"

definition update_balances :: "exchange \<Rightarrow> (error + unit) \<times> exchange" where
  "update_balances st0 =
     (case api_post USER_BALANCES_PATH_URL JNone st0 of
        (Inl e, st1) \<Rightarrow> (Inl e, st1)
      | (Inr response, st1) \<Rightarrow>
          (case extract_result response of
             Inl e \<Rightarrow> (Inl e, st1)
           | Inr r \<Rightarrow>
               (let balances = py_or r (JDict []);
                    local_assets = map fst (account_balances st1);
                    collected = collect_balance_entries balances None;
                    (balance_entries, st2) =
                      (if collected = []
                       then build_balance_fallback_entries (warn NoUsableAssets st1)
                       else (collected, st1\<lparr>empty_balance_logged := False\<rparr>))
                in case apply_balance_entries balance_entries [] st2 of
                     (Inl e, st3) \<Rightarrow> (Inl e, st3)
                   | (Inr remote, st3) \<Rightarrow>
                       (case (if remote = []
                              then (case build_balance_fallback_entries
                                           (warn EntriesWithoutAssets st3) of
                                      (fallback_entries, st4) \<Rightarrow>
                                        apply_fallback_entries fallback_entries [] st4)
                              else (Inr remote, st3)) of
                          (Inl e, st5) \<Rightarrow> (Inl e, st5)
                        | (Inr remote_assets, st5) \<Rightarrow>
                            (Inr (),
                             drop_assets (filter (\<lambda>a. a \<notin> set remote_assets) local_assets)
                               st5)))))"

text \<open>Balance responses used as concrete inputs below.\<close>

definition snapshot_unparseable :: json where
  "snapshot_unparseable =
     JDict [(''code'', JInt 0),
            (''result'', JDict [(''USDT'', JDict [(''available'', JStr ''abc'')]),
                                (''BTC'', JDict [(''available'', JStr ''1'')])])]"



section \<open>Identifier resolver\<close>

definition ebind :: "error + 'a \<Rightarrow> ('a \<Rightarrow> error + 'b) \<Rightarrow> error + 'b" where
  "ebind m f = (case m of Inl e \<Rightarrow> Inl e | Inr x \<Rightarrow> f x)"

definition CLIENT_ID_FIELDS :: "string list" where
  "CLIENT_ID_FIELDS = [''client_id'', ''clientId'', ''clientOrderId'', ''client_oid'', ''clientOid'']"

definition EXCHANGE_ID_FIELDS :: "string list" where
  "EXCHANGE_ID_FIELDS = [''order_id'', ''orderId'', ''id'']"

definition AMOUNT_FIELDS :: "string list" where
  "AMOUNT_FIELDS = [''amount'', ''number'', ''deal_stock'', ''size'']"

definition PRICE_FIELDS :: "string list" where
  "PRICE_FIELDS = [''price'', ''deal_price'', ''avg_price'']"

definition ORDER_MATCH_TOLERANCE :: decimal where
  "ORDER_MATCH_TOLERANCE = Finite (1 / 10000)"

definition SIDE_BUY :: int where
  "SIDE_BUY = 2"

definition SIDE_SELL :: int where
  "SIDE_SELL = 1"

fun first_client_id :: "pydict \<Rightarrow> string list \<Rightarrow> string option" where
  "first_client_id entry [] = None"
| "first_client_id entry (field # others) =
     (case dict_get entry field of
        JStr s \<Rightarrow> if s \<noteq> [] then Some s else first_client_id entry others
      | _ \<Rightarrow> first_client_id entry others)"

definition extract_client_order_id :: "pydict \<Rightarrow> string option" where
  "extract_client_order_id entry = first_client_id entry CLIENT_ID_FIELDS"

fun first_exchange_id :: "pydict \<Rightarrow> string list \<Rightarrow> string option" where
  "first_exchange_id entry [] = None"
| "first_exchange_id entry (field # others) =
     (case dict_get entry field of
        JNone \<Rightarrow> first_exchange_id entry others
      | v \<Rightarrow> Some (py_str v))"

definition extract_exchange_order_id :: "pydict \<Rightarrow> string option" where
  "extract_exchange_order_id entry = first_exchange_id entry EXCHANGE_ID_FIELDS"

text \<open>
  \<open>int(x)\<close> of a float truncates towards zero and raises for a NaN or an infinity;
  \<open>_coerce_entry_side\<close> catches that and returns \<open>None\<close>.
\<close>

definition int_of_float :: "string \<Rightarrow> int option" where
  "int_of_float r =
     (case Decimal_of_string r of
        Some (Finite q) \<Rightarrow> Some (if 0 \<le> q then \<lfloor>q\<rfloor> else \<lceil>q\<rceil>)
      | _ \<Rightarrow> None)"

fun coerce_entry_side :: "json \<Rightarrow> int option" where
  "coerce_entry_side JNone = None"
| "coerce_entry_side (JStr s) =
     (let lowered = py_lower s
      in if lowered = ''buy'' then Some SIDE_BUY
         else if lowered = ''sell'' then Some SIDE_SELL
         else if py_isdigit lowered then Some (int_of_digits lowered)
         else None)"
| "coerce_entry_side (JInt i) = Some i"
| "coerce_entry_side (JBool b) = Some (if b then 1 else 0)"
| "coerce_entry_side (JFloat r) = int_of_float r"
| "coerce_entry_side (JList xs) = None"
| "coerce_entry_side (JDict d) = None"

fun decimal_from_entry_fields :: "pydict \<Rightarrow> string list \<Rightarrow> decimal" where
  "decimal_from_entry_fields entry [] = Finite 0"
| "decimal_from_entry_fields entry (field # others) =
     (case map_of entry field of
        None \<Rightarrow> decimal_from_entry_fields entry others
      | Some JNone \<Rightarrow> decimal_from_entry_fields entry others
      | Some v \<Rightarrow> decimal_from_value v)"

definition values_close :: "decimal \<Rightarrow> decimal \<Rightarrow> error + bool" where
  "values_close lhs rhs =
     ebind (dec_eq rhs (Finite 0)) (\<lambda>rhs_zero.
       if rhs_zero then dec_eq lhs rhs
       else
         ebind (dec_mul (dec_abs rhs) ORDER_MATCH_TOLERANCE) (\<lambda>scaled.
         ebind (dec_max (Finite (1 / 100000000)) scaled) (\<lambda>tolerance.
         ebind (dec_sub lhs rhs) (\<lambda>diff.
         ebind (dec_abs_op diff) (\<lambda>dist.
           dec_le dist tolerance)))))"

text \<open>
  The amount and the price signal of \<open>_entry_matches_tracked_order\<close>: \<open>None\<close> when the
  signal does not apply, otherwise whether the two values are close.
\<close>

definition amount_signal :: "in_flight_order \<Rightarrow> pydict \<Rightarrow> error + bool option" where
  "amount_signal tracked_order entry =
     (let entry_amount = decimal_from_entry_fields entry AMOUNT_FIELDS
      in ebind (dec_gt entry_amount (Finite 0)) (\<lambda>entry_positive.
           if \<not> entry_positive then Inr None
           else ebind (dec_gt (amount tracked_order) (Finite 0)) (\<lambda>order_positive.
                  if \<not> order_positive then Inr None
                  else ebind (values_close entry_amount (amount tracked_order)) (\<lambda>c.
                         Inr (Some c)))))"

definition price_signal :: "in_flight_order \<Rightarrow> pydict \<Rightarrow> error + bool option" where
  "price_signal tracked_order entry =
     (let entry_price = decimal_from_entry_fields entry PRICE_FIELDS
      in case price tracked_order of
           None \<Rightarrow> Inr None
         | Some p \<Rightarrow>
             ebind (dec_gt p (Finite 0)) (\<lambda>order_positive.
               if \<not> order_positive then Inr None
               else ebind (dec_gt entry_price (Finite 0)) (\<lambda>entry_positive.
                      if \<not> entry_positive then Inr None
                      else ebind (values_close entry_price p) (\<lambda>c.
                             Inr (Some c)))))"

definition entry_matches_tracked_order :: "in_flight_order \<Rightarrow> pydict \<Rightarrow> error + bool" where
  "entry_matches_tracked_order tracked_order entry =
     (if extract_client_order_id entry = Some (client_order_id tracked_order) then Inr True
      else if extract_exchange_order_id entry \<noteq> None
              \<and> exchange_order_id tracked_order \<noteq> None
              \<and> extract_exchange_order_id entry = exchange_order_id tracked_order
      then Inr True
      else
        (let expected_side = (if trade_type tracked_order = BUY then SIDE_BUY else SIDE_SELL);
             entry_side = coerce_entry_side (py_or (dict_get entry ''side'') (dict_get entry ''type''))
         in if entry_side \<noteq> None \<and> entry_side \<noteq> Some expected_side then Inr False
            else
              ebind (amount_signal tracked_order entry) (\<lambda>by_amount.
                if by_amount = Some False then Inr False
                else
                  ebind (price_signal tracked_order entry) (\<lambda>by_price.
                    if by_price = Some False then Inr False
                    else Inr (2 \<le> (if entry_side = None then 0 else 1)
                                   + (if by_amount = Some True then 1 else 0)
                                   + (if by_price = Some True then (1::nat) else 0))))))"

fun locate_tracked_order_entry :: "in_flight_order \<Rightarrow> json list \<Rightarrow> error + pydict option" where
  "locate_tracked_order_entry tracked_order [] = Inr None"
| "locate_tracked_order_entry tracked_order (entry # entries) =
     (case entry of
        JDict d \<Rightarrow>
          (case entry_matches_tracked_order tracked_order d of
             Inl e \<Rightarrow> Inl e
           | Inr m \<Rightarrow> if m then Inr (Some d)
                      else locate_tracked_order_entry tracked_order entries)
      | _ \<Rightarrow> locate_tracked_order_entry tracked_order entries)"

text \<open>
  The loop of \<open>_find_order_entry_via_rest\<close> over its endpoints. A failed request or a
  rejected response moves on to the next endpoint; an exception of the matcher is not
  caught.
\<close>

fun find_order_entry_loop ::
  "string list \<Rightarrow> in_flight_order \<Rightarrow> string \<Rightarrow> exchange \<Rightarrow> (error + pydict option) \<times> exchange" where
  "find_order_entry_loop [] tracked_order symbol st = (Inr None, st)"
| "find_order_entry_loop (path_url # paths) tracked_order symbol st =
     (case api_post path_url
             (JDict [(''market'', JStr symbol), (''page'', JInt 1), (''page_size'', JInt 200)]) st of
        (Inl e, st1) \<Rightarrow>
          if is_Exception e then find_order_entry_loop paths tracked_order symbol st1
          else (Inl e, st1)
      | (Inr response, st1) \<Rightarrow>
          (case extract_result response of
             Inl e \<Rightarrow> find_order_entry_loop paths tracked_order symbol st1
           | Inr r \<Rightarrow>
               (case locate_tracked_order_entry tracked_order (extract_entries r) of
                  Inl e \<Rightarrow> (Inl e, st1)
                | Inr (Some matched_entry) \<Rightarrow> (Inr (Some matched_entry), st1)
                | Inr None \<Rightarrow> find_order_entry_loop paths tracked_order symbol st1)))"

definition find_order_entry_via_rest ::
  "in_flight_order \<Rightarrow> string \<Rightarrow> exchange \<Rightarrow> (error + pydict option) \<times> exchange" where
  "find_order_entry_via_rest tracked_order symbol st =
     find_order_entry_loop [PENDING_ORDERS_PATH_URL, FINISHED_ORDERS_PATH_URL]
       tracked_order symbol st"

definition sync_tracked_order_with_remote_entry ::
  "in_flight_order \<Rightarrow> pydict \<Rightarrow> exchange \<Rightarrow> exchange" where
  "sync_tracked_order_with_remote_entry tracked_order entry st =
     (case order_state_from_status entry of
        Inl e \<Rightarrow> st
      | Inr order_state \<Rightarrow>
          if order_state \<in> {CANCELED, FILLED, FAILED}
          then process_order_update
                 \<lparr>ou_trading_pair = trading_pair tracked_order,
                  ou_new_state = order_state,
                  ou_client_order_id = Some (client_order_id tracked_order),
                  ou_exchange_order_id = exchange_order_id tracked_order\<rparr> st
          else st)"

text \<open>
  Modelled from the spec: \<open>_update_order_after_failure\<close> belongs to the base class of the
  connector, which is not among the sources. The spec has the resolver escalate to a
  terminal failure update (state Failed) for the tracked order; the update names the
  order by its client id.
\<close>

definition update_order_after_failure :: "string \<Rightarrow> string \<Rightarrow> exchange \<Rightarrow> exchange" where
  "update_order_after_failure order_id tp st =
     process_order_update
       \<lparr>ou_trading_pair = tp, ou_new_state = FAILED,
        ou_client_order_id = Some order_id, ou_exchange_order_id = None\<rparr> st"

text \<open>
  \<open>_refresh_exchange_order_id\<close>. It returns its result, the tracked order (whose
  exchange id it may have set) and the state.
\<close>

definition refresh_exchange_order_id ::
  "in_flight_order \<Rightarrow> exchange \<Rightarrow> (error + string option) \<times> in_flight_order \<times> exchange" where
  "refresh_exchange_order_id tracked_order st =
     (case exchange_symbol_associated_to_pair (trading_pair tracked_order) st of
        (Inl e, st1) \<Rightarrow> (Inr None, tracked_order, st1)
      | (Inr symbol, st1) \<Rightarrow>
          (case find_order_entry_via_rest tracked_order symbol st1 of
             (Inl e, st2) \<Rightarrow> (Inl e, tracked_order, st2)
           | (Inr (Some order_entry), st2) \<Rightarrow>
               (let updated = (case extract_exchange_order_id order_entry of
                                 None \<Rightarrow> tracked_order
                               | Some x \<Rightarrow> tracked_order\<lparr>exchange_order_id := Some x\<rparr>)
                in (Inr (exchange_order_id updated), updated,
                    sync_tracked_order_with_remote_entry updated order_entry st2))
           | (Inr None, st2) \<Rightarrow>
               (let order_age = max 0 (current_timestamp st2 - creation_timestamp tracked_order)
                in (Inr None, tracked_order,
                    if order_age > 30
                    then update_order_after_failure (client_order_id tracked_order)
                           (trading_pair tracked_order) st2
                    else st2))))"

text \<open>Tracked orders and listing entries used as concrete inputs below.\<close>

definition order_A :: in_flight_order where
  "order_A =
     \<lparr>client_order_id = ''A'', exchange_order_id = None, trading_pair = ''BTC-USDT'',
      trade_type = BUY, amount = Finite 2, price = Some (Finite 100),
      creation_timestamp = 10, is_done = False, quote_asset = ''USDT''\<rparr>"

definition empty_listing :: json where
  "empty_listing = JDict [(''code'', JInt 0), (''result'', JList [])]"

definition listing_request :: json where
  "listing_request =
     JDict [(''market'', JStr ''BTC_USDT''), (''page'', JInt 1), (''page_size'', JInt 200)]"

section \<open>Trade fills\<close>

text \<open>
  \<open>TradeUpdate\<close>, without its timestamp. Of the fee only the flat fee is kept: the token
  and the amount handed to \<open>TokenAmount\<close> when the fee amount is positive.
\<close>

record trade_update =
  tu_trade_id :: string
  tu_client_order_id :: string
  tu_exchange_order_id :: string
  tu_trading_pair :: string
  fill_price :: decimal
  fill_base_amount :: decimal
  fill_quote_amount :: decimal
  flat_fee :: "(json \<times> decimal) option"

definition dec_ne :: "decimal \<Rightarrow> decimal \<Rightarrow> error + bool" where
  "dec_ne x y = ebind (dec_eq x y) (\<lambda>b. Inr (\<not> b))"

text \<open>
  The body of the loop of \<open>_all_trade_updates_for_order\<close> for the deal at position
  \<open>idx\<close>: \<open>None\<close> when the deal is skipped.
\<close>

definition trade_update_for_deal ::
  "string \<Rightarrow> in_flight_order \<Rightarrow> nat \<Rightarrow> json \<Rightarrow> error + trade_update option" where
  "trade_update_for_deal order_exchange_id order' idx deal_entry =
     (case deal_entry of
        JDict deal \<Rightarrow>
          (let base_amount = decimal_from_value
                 (py_or (py_or (dict_get deal ''amount'') (dict_get deal ''number''))
                        (dict_get deal ''deal_stock''));
               explicit_price = decimal_from_value (dict_get deal ''price'')
           in ebind (dec_le base_amount (Finite 0)) (\<lambda>no_amount.
                if no_amount then Inr None
                else
                  ebind (dec_le explicit_price (Finite 0)) (\<lambda>no_price.
                  ebind (if no_price
                         then ebind (dec_ne base_amount (Finite 0)) (\<lambda>nonzero.
                                if nonzero
                                then dec_div (decimal_from_value
                                                (py_or (dict_get deal ''avg_price'')
                                                       (dict_get deal ''deal_money'')))
                                             base_amount
                                else Inr (Finite 0))
                         else Inr explicit_price) (\<lambda>deal_price.
                  ebind (if py_truthy (dict_get deal ''deal_money'')
                         then Inr (decimal_from_value (dict_get deal ''deal_money''))
                         else dec_mul deal_price base_amount) (\<lambda>quote_amount.
                  (let fee_amount = decimal_from_value (dict_get deal ''fee'');
                       fee_asset = py_or (py_or (dict_get deal ''fee_asset'')
                                                (dict_get deal ''fee_currency''))
                                         (JStr (quote_asset order'))
                   in ebind (dec_gt fee_amount (Finite 0)) (\<lambda>has_fee.
                        Inr (Some
                          \<lparr>tu_trade_id =
                             py_str (py_or (py_or (dict_get deal ''id'') (dict_get deal ''deal_id''))
                                           (JStr (order_exchange_id @ ''-'' @ str_of_nat idx))),
                           tu_client_order_id = client_order_id order',
                           tu_exchange_order_id = order_exchange_id,
                           tu_trading_pair = trading_pair order',
                           fill_price = deal_price,
                           fill_base_amount = base_amount,
                           fill_quote_amount = quote_amount,
                           flat_fee = (if has_fee then Some (fee_asset, fee_amount)
                                       else None)\<rparr>))))))))
      | _ \<Rightarrow> Inr None)"

fun trade_updates_loop ::
  "string \<Rightarrow> in_flight_order \<Rightarrow> nat \<Rightarrow> json list \<Rightarrow> error + trade_update list" where
  "trade_updates_loop x order' idx [] = Inr []"
| "trade_updates_loop x order' idx (deal # deals) =
     ebind (trade_update_for_deal x order' idx deal) (\<lambda>u.
     ebind (trade_updates_loop x order' (Suc idx) deals) (\<lambda>us.
       Inr (case u of None \<Rightarrow> us | Some trade_update \<Rightarrow> trade_update # us)))"

definition all_trade_updates_for_order ::
  "in_flight_order \<Rightarrow> exchange \<Rightarrow> (error + trade_update list) \<times> exchange" where
  "all_trade_updates_for_order order' st =
     (case exchange_order_id order' of
        None \<Rightarrow> (Inr [], st)
      | Some x \<Rightarrow>
          (case exchange_symbol_associated_to_pair (trading_pair order') st of
             (Inl e, st1) \<Rightarrow> (Inl e, st1)
           | (Inr symbol, st1) \<Rightarrow>
               (case api_post ORDER_DEALS_PATH_URL
                       (JDict [(''market'', JStr symbol), (''order_id'', JStr x)]) st1 of
                  (Inl e, st2) \<Rightarrow> (Inl e, st2)
                | (Inr response, st2) \<Rightarrow>
                    (case extract_result response of
                       Inl e \<Rightarrow> (Inl e, st2)
                     | Inr deals \<Rightarrow>
                         (trade_updates_loop x order' 0 (extract_entries deals), st2)))))"

text \<open>Deals used as concrete inputs below.\<close>

definition deal_with_avg_price :: pydict where
  "deal_with_avg_price =
     [(''id'', JInt 9001), (''amount'', JStr ''2''), (''avg_price'', JStr ''10''),
      (''deal_money'', JStr ''20'')]"

definition deal_with_price :: pydict where
  "deal_with_price =
     [(''id'', JInt 9002), (''amount'', JStr ''2''), (''price'', JStr ''10.5''),
      (''deal_money'', JStr ''21'')]"

definition deal_without_price :: pydict where
  "deal_without_price =
     [(''id'', JInt 9003), (''amount'', JStr ''4''), (''price'', JStr ''0''),
      (''deal_money'', JStr ''21'')]"

definition is_nan :: "decimal \<Rightarrow> bool" where
  "is_nan d = (case d of NotANumber s \<Rightarrow> True | _ \<Rightarrow> False)"

section \<open>Batch cancellation\<close>

definition BULK_CANCEL_MAX_SIZE :: nat where
  "BULK_CANCEL_MAX_SIZE = 10"

text \<open>
  A candidate is a tracked order with the payload of its cancel request: the market
  symbol and the venue's order id, both strings.
\<close>

type_synonym cancel_payload = "string \<times> string"

definition payload_json :: "cancel_payload \<Rightarrow> json" where
  "payload_json p = JDict [(''market'', JStr (fst p)), (''order_id'', JStr (snd p))]"

definition is_truthy :: "json \<Rightarrow> bool" where
  "is_truthy v =
     (case v of
        JBool b \<Rightarrow> b
      | JStr s \<Rightarrow> py_lower (py_strip s) \<in> set [''true'', ''1'', ''success'']
      | JInt i \<Rightarrow> i \<noteq> 0
      | JFloat r \<Rightarrow> \<not> float_is_zero r
      | _ \<Rightarrow> False)"

text \<open>
  \<open>_chunk_list\<close>: the slices of length \<open>n\<close> at the offsets \<open>0, n, 2n, ...\<close>. The
  source calls it with \<open>BULK_CANCEL_MAX_SIZE\<close>; for \<open>n = 0\<close>, where \<open>range\<close> raises, the
  model yields no chunk.
\<close>

function chunk_list :: "'a list \<Rightarrow> nat \<Rightarrow> 'a list list" where
  "chunk_list source n =
     (if source = [] \<or> n = 0 then []
      else take n source # chunk_list (drop n source) n)"
  by pat_completeness auto
termination
  by (relation "measure (\<lambda>(source, n). length source)") auto

declare chunk_list.simps [simp del]

definition apply_cancel_update :: "in_flight_order \<Rightarrow> exchange \<Rightarrow> exchange" where
  "apply_cancel_update order' st =
     process_order_update
       \<lparr>ou_trading_pair = trading_pair order', ou_new_state = CANCELED,
        ou_client_order_id = Some (client_order_id order'), ou_exchange_order_id = None\<rparr> st"

text \<open>
  \<open>order_lookup\<close>, the dict from requested venue id to order that the comprehension
  builds: a later candidate with the same id replaces the order of an earlier one.
\<close>

definition order_lookup_of ::
  "(in_flight_order \<times> cancel_payload) list \<Rightarrow> (string \<times> in_flight_order) list" where
  "order_lookup_of chunk = foldl (\<lambda>m c. AList.update (snd (snd c)) (fst c) m) [] chunk"

text \<open>
  The loop over the entries of a chunk response. It carries the acknowledged ids, the
  successful and the failed orders and the state.
\<close>

fun scan_result_entries ::
  "(string \<times> in_flight_order) list \<Rightarrow> json list \<Rightarrow> string list \<Rightarrow>
   in_flight_order list \<Rightarrow> in_flight_order list \<Rightarrow> exchange \<Rightarrow>
   string list \<times> in_flight_order list \<times> in_flight_order list \<times> exchange" where
  "scan_result_entries lookup [] acknowledged successful failed st =
     (acknowledged, successful, failed, st)"
| "scan_result_entries lookup (entry # entries) acknowledged successful failed st =
     (case entry of
        JDict d \<Rightarrow>
          (let venue_id = py_str (py_or (dict_get d ''order_id'') (JStr []))
           in if venue_id = []
              then scan_result_entries lookup entries acknowledged successful failed st
              else
                (case map_of lookup venue_id of
                   None \<Rightarrow>
                     scan_result_entries lookup entries (acknowledged @ [venue_id])
                       successful failed st
                 | Some order' \<Rightarrow>
                     if is_truthy (dict_get d ''result'')
                     then scan_result_entries lookup entries (acknowledged @ [venue_id])
                            (successful @ [order']) failed (apply_cancel_update order' st)
                     else scan_result_entries lookup entries (acknowledged @ [venue_id])
                            successful (failed @ [order']) st))
      | _ \<Rightarrow> scan_result_entries lookup entries acknowledged successful failed st)"

text \<open>
  The loop of \<open>_execute_batch_cancel\<close> over the chunks. Only a cancellation (the
  timeout of the caller) leaves it with an exception.
\<close>

fun batch_cancel_chunks ::
  "(in_flight_order \<times> cancel_payload) list list \<Rightarrow>
   in_flight_order list \<Rightarrow> in_flight_order list \<Rightarrow> exchange \<Rightarrow>
   (error + in_flight_order list \<times> in_flight_order list) \<times> exchange" where
  "batch_cancel_chunks [] successful failed st = (Inr (successful, failed), st)"
| "batch_cancel_chunks (chunk # chunks) successful failed st =
     (let lookup = order_lookup_of chunk
      in case api_post BULK_CANCEL_PATH_URL
                (JDict [(''orders_json'', JList (map (\<lambda>c. payload_json (snd c)) chunk))]) st of
           (Inl e, st1) \<Rightarrow>
             if is_Exception e
             then batch_cancel_chunks chunks successful (failed @ map snd lookup) st1
             else (Inl e, st1)
         | (Inr response, st1) \<Rightarrow>
             (case extract_result response of
                Inl e \<Rightarrow> batch_cancel_chunks chunks successful (failed @ map snd lookup) st1
              | Inr r \<Rightarrow>
                  (let result_entries = extract_entries r
                   in if result_entries = []
                      then batch_cancel_chunks chunks successful (failed @ map snd lookup) st1
                      else
                        (case scan_result_entries lookup result_entries [] successful failed st1 of
                           (acknowledged, successful', failed', st2) \<Rightarrow>
                             batch_cancel_chunks chunks successful'
                               (failed' @ map snd (filter (\<lambda>kv. fst kv \<notin> set acknowledged) lookup))
                               st2))))"

definition execute_batch_cancel ::
  "(in_flight_order \<times> cancel_payload) list \<Rightarrow> exchange \<Rightarrow>
   (error + in_flight_order list \<times> in_flight_order list) \<times> exchange" where
  "execute_batch_cancel candidates st =
     (if candidates = [] then (Inr ([], []), st)
      else batch_cancel_chunks (chunk_list candidates BULK_CANCEL_MAX_SIZE) [] [] st)"

text \<open>
  The body of the loop of \<open>_build_batch_cancel_candidates\<close> for one order: the payload
  when the order becomes a batch candidate, \<open>None\<close> when it goes to the fallback list.
  The order comes back as the refresh has left it.
\<close>

definition candidate_payload ::
  "in_flight_order \<Rightarrow> string \<Rightarrow> exchange \<Rightarrow> cancel_payload option \<times> exchange" where
  "candidate_payload order' venue_id st =
     (case exchange_symbol_associated_to_pair (trading_pair order') st of
        (Inl e, st1) \<Rightarrow> (None, st1)
      | (Inr symbol, st1) \<Rightarrow> (Some (symbol, venue_id), st1))"

definition batch_candidate ::
  "in_flight_order \<Rightarrow> exchange \<Rightarrow> (error + cancel_payload option) \<times> in_flight_order \<times> exchange" where
  "batch_candidate order' st =
     (case exchange_order_id order' of
        Some venue_id \<Rightarrow>
          (case candidate_payload order' venue_id st of (p, st1) \<Rightarrow> (Inr p, order', st1))
      | None \<Rightarrow>
          (case refresh_exchange_order_id order' st of
             (Inl e, order1, st1) \<Rightarrow>
               if is_Exception e then (Inr None, order1, st1) else (Inl e, order1, st1)
           | (Inr None, order1, st1) \<Rightarrow> (Inr None, order1, st1)
           | (Inr (Some venue_id), order1, st1) \<Rightarrow>
               (case candidate_payload order1 venue_id st1 of (p, st2) \<Rightarrow> (Inr p, order1, st2))))"

fun build_candidates_loop ::
  "in_flight_order list \<Rightarrow> (in_flight_order \<times> cancel_payload) list \<Rightarrow>
   in_flight_order list \<Rightarrow> exchange \<Rightarrow>
   (error + (in_flight_order \<times> cancel_payload) list \<times> in_flight_order list) \<times> exchange" where
  "build_candidates_loop [] candidates fallback_orders st = (Inr (candidates, fallback_orders), st)"
| "build_candidates_loop (order' # orders) candidates fallback_orders st =
     (case batch_candidate order' st of
        (Inl e, order1, st1) \<Rightarrow> (Inl e, st1)
      | (Inr None, order1, st1) \<Rightarrow>
          build_candidates_loop orders candidates (fallback_orders @ [order1]) st1
      | (Inr (Some p), order1, st1) \<Rightarrow>
          build_candidates_loop orders (candidates @ [(order1, p)]) fallback_orders st1)"

definition build_batch_cancel_candidates ::
  "in_flight_order list \<Rightarrow> exchange \<Rightarrow>
   (error + (in_flight_order \<times> cancel_payload) list \<times> in_flight_order list) \<times> exchange" where
  "build_batch_cancel_candidates orders st = build_candidates_loop orders [] [] st"

text \<open>
  \<open>_execute_individual_cancels\<close>. The single cancel \<open>_execute_cancel\<close> of the base class
  is not among the sources; its outcome for each order is taken from the script
  \<open>cancels\<close>: it raises, or it returns the order id it was given (\<open>True\<close>) or \<open>None\<close>
  (\<open>False\<close>). What the single cancel does to the order tracker is not modelled. The
  cancels are gathered with \<open>return_exceptions=True\<close>, so what a cancel raises is one of
  the gathered results: an instance of \<open>Exception\<close> is skipped, as \<open>None\<close> is, and
  every other result is appended to the successful ids, also the \<open>CancelledError\<close> of a
  single cancel that was cancelled, which is not an instance of \<open>Exception\<close>. A
  successful id is therefore a string (\<open>Inr\<close>) or such an exception object (\<open>Inl\<close>).
  The expiry of the timeout (\<open>TimedOut\<close>) and a cancellation of the whole task (the
  script is used up) end the gathering with that exception.
\<close>

fun individual_cancel_results ::
  "in_flight_order list \<Rightarrow> exchange \<Rightarrow> (error + (error + string) list) \<times> exchange" where
  "individual_cancel_results [] st = (Inr [], st)"
| "individual_cancel_results (order' # orders) st =
     (case cancels st of
        [] \<Rightarrow> (Inl CancelledError, st)
      | outcome # outcomes \<Rightarrow>
          (let st1 = st\<lparr>cancels := outcomes\<rparr>;
               mine = (case outcome of
                         Inl e \<Rightarrow>
                           if is_Exception e then Inr []
                           else if e = CancelledError then Inr [Inl e]
                           else Inl e
                       | Inr ok \<Rightarrow> Inr (if ok then [Inr (client_order_id order')] else []))
           in case mine of
                Inl e \<Rightarrow> (Inl e, st1)
              | Inr ids \<Rightarrow>
                  (case individual_cancel_results orders st1 of
                     (Inl e, st2) \<Rightarrow> (Inl e, st2)
                   | (Inr later, st2) \<Rightarrow> (Inr (ids @ later), st2))))"

definition execute_individual_cancels ::
  "in_flight_order list \<Rightarrow> exchange \<Rightarrow> (error + (error + string) list) \<times> exchange" where
  "execute_individual_cancels orders st =
     (if orders = [] then (Inr [], st) else individual_cancel_results orders st)"

text \<open>
  \<open>cancel_all\<close>, for the orders of \<open>in_flight_orders\<close>. The expiry of the timeout leaves
  the \<open>timeout\<close> block as a \<open>TimeoutError\<close>, which the handler \<open>except Exception\<close> of
  \<open>cancel_all\<close> swallows; a cancellation from outside leaves \<open>cancel_all\<close> as the
  \<open>CancelledError\<close> it is. No other exception reaches the handler. \<open>order_ids_pending\<close> is
  a set in the source; here it keeps the order of the in-flight orders.
\<close>

definition failed_cancellations :: "string list \<Rightarrow> cancellation_result list" where
  "failed_cancellations order_ids_pending =
     map (\<lambda>i. CancellationResult i False) order_ids_pending"

definition successful_cancellation :: "error + string \<Rightarrow> cancellation_result" where
  "successful_cancellation k =
     (case k of
        Inr i \<Rightarrow> CancellationResult i True
      | Inl e \<Rightarrow> CancellationResultOfException e True)"

definition cancel_all ::
  "in_flight_order list \<Rightarrow> exchange \<Rightarrow> (error + cancellation_result list) \<times> exchange" where
  "cancel_all in_flight st =
     (let incomplete_orders = filter (\<lambda>order'. \<not> is_done order') in_flight
      in if incomplete_orders = [] then (Inr [], st)
         else
           (let order_ids_pending = remdups (map client_order_id incomplete_orders)
            in case build_batch_cancel_candidates incomplete_orders st of
                 (Inl e, st1) \<Rightarrow>
                   (if e = CancelledError then Inl e
                    else Inr (failed_cancellations order_ids_pending), st1)
               | (Inr (batch_candidates, fallback_orders), st1) \<Rightarrow>
                   (case execute_batch_cancel batch_candidates st1 of
                      (Inl e, st2) \<Rightarrow>
                        (if e = CancelledError then Inl e
                         else Inr (failed_cancellations order_ids_pending), st2)
                    | (Inr (batch_successful, batch_failed), st2) \<Rightarrow>
                        (let done1 = map (\<lambda>order'. CancellationResult (client_order_id order') True)
                                         batch_successful;
                             pending1 = filter (\<lambda>i. i \<notin> client_order_id ` set batch_successful)
                                               order_ids_pending
                         in case execute_individual_cancels (fallback_orders @ batch_failed) st2 of
                              (Inl e, st3) \<Rightarrow>
                                (if e = CancelledError then Inl e
                                 else Inr (done1 @ failed_cancellations pending1), st3)
                            | (Inr fallback_successes, st3) \<Rightarrow>
                                (Inr (done1
                                      @ map successful_cancellation fallback_successes
                                      @ failed_cancellations
                                          (filter (\<lambda>i. Inr i \<notin> set fallback_successes) pending1)),
                                 st3)))))"

text \<open>Orders and bulk-cancel responses used as concrete inputs below.\<close>

definition order_B :: in_flight_order where
  "order_B =
     \<lparr>client_order_id = ''B'', exchange_order_id = Some ''1'', trading_pair = ''BTC-USDT'',
      trade_type = BUY, amount = Finite 2, price = Some (Finite 100),
      creation_timestamp = 10, is_done = False, quote_asset = ''USDT''\<rparr>"

definition order_C :: in_flight_order where
  "order_C =
     \<lparr>client_order_id = ''C'', exchange_order_id = Some ''1'', trading_pair = ''BTC-USDT'',
      trade_type = BUY, amount = Finite 2, price = Some (Finite 100),
      creation_timestamp = 11, is_done = False, quote_asset = ''USDT''\<rparr>"

definition bulk_response :: "json list \<Rightarrow> json" where
  "bulk_response entries = JDict [(''code'', JInt 0), (''result'', JList entries)]"

definition cancel_entry :: "string \<Rightarrow> bool \<Rightarrow> json" where
  "cancel_entry venue_id ok = JDict [(''order_id'', JStr venue_id), (''result'', JBool ok)]"


text \<open>
  In the words of the spec: a response entry acknowledges a venue id when it is a
  mapping whose \<open>order_id\<close> is that id and whose result flag is truthy.
\<close>

definition entry_venue_id :: "pydict \<Rightarrow> string" where
  "entry_venue_id d = py_str (py_or (dict_get d ''order_id'') (JStr []))"

definition acknowledged_by :: "string \<Rightarrow> json \<Rightarrow> bool" where
  "acknowledged_by venue_id entry =
     (case entry of
        JDict d \<Rightarrow> entry_venue_id d = venue_id \<and> is_truthy (dict_get d ''result'')
      | _ \<Rightarrow> False)"

text \<open>
  What one response entry contributes to the loop of \<open>scan_result_entries\<close>: the id it
  acknowledges, and the order it adds to the successful (\<open>ok\<close>) or to the failed
  (\<open>\<not> ok\<close>) orders.
\<close>

definition entry_ack :: "json \<Rightarrow> string option" where
  "entry_ack entry =
     (case entry of
        JDict d \<Rightarrow> if entry_venue_id d = [] then None else Some (entry_venue_id d)
      | _ \<Rightarrow> None)"

definition entry_order ::
  "(string \<times> in_flight_order) list \<Rightarrow> bool \<Rightarrow> json \<Rightarrow> in_flight_order option" where
  "entry_order lookup ok entry =
     (case entry of
        JDict d \<Rightarrow>
          if entry_venue_id d \<noteq> [] \<and> is_truthy (dict_get d ''result'') = ok
          then map_of lookup (entry_venue_id d)
          else None
      | _ \<Rightarrow> None)"


text \<open>
  The connector as \<open>__init__\<close> leaves it, for the given trading pairs: nothing is
  cached, no balance is known, and the venue script is empty.
\<close>

definition init_exchange :: "string list \<Rightarrow> exchange" where
  "init_exchange pairs =
     \<lparr>trading_pairs = pairs, exchange_trading_pair_map = [], empty_balance_logged = False,
      account_balances = [], account_available_balances = [], current_timestamp = 0,
      order_updates = [], warnings = [], requests = [], rest = [], cancels = []\<rparr>"

definition init_user_stream :: user_stream where
  "init_user_stream =
     \<lparr>message_id = 0, last_event_timestamp = 0, last_client_ping_ts = 0,
      last_server_ping_ts = 0, last_pong_sent_ts = 0, ws_sent = []\<rparr>"


section \<open>Verified properties\<close>

subsection \<open>Order state from a status payload\<close>

text \<open>
  The rules of the table that hold as the spec states them: the numeric codes, the
  status strings in any letter case, and the cancel flag.
\<close>

lemma order_state_numeric_codes:
  "dict_get p ''status'' = JInt 1 \<Longrightarrow> order_state_from_status p = Inr OPEN"
  "dict_get p ''status'' = JInt 2 \<Longrightarrow> order_state_from_status p = Inr OPEN"
  "dict_get p ''status'' = JInt 3 \<Longrightarrow> order_state_from_status p = Inr FILLED"
  by (simp_all add: order_state_from_status_def ORDER_STATE_MAP_def)

lemma order_state_status_strings:
  "dict_get p ''status'' = JStr s \<Longrightarrow>
   py_lower s \<in> set [''filled'', ''finished'', ''done'', ''success''] \<Longrightarrow>
   order_state_from_status p = Inr FILLED"
  "dict_get p ''status'' = JStr s \<Longrightarrow>
   py_lower s \<in> set [''cancelled'', ''canceled'', ''cancel''] \<Longrightarrow>
   order_state_from_status p = Inr CANCELED"
  by (auto simp: order_state_from_status_def)

lemma order_state_cancel_flag:
  "dict_get p ''status'' = JNone \<Longrightarrow> dict_get p ''is_cancel'' = JBool True \<Longrightarrow>
   order_state_from_status p = Inr CANCELED"
  by (simp add: order_state_from_status_def)

lemma order_state_string_zero_left_is_filled:
  "order_state_from_status [(''left'', JStr ''0'')] = Inr FILLED"
  by code_simp

text \<open>
  C2. The rule table of the order state says that a payload whose remaining-amount
  field is present and equals zero is Filled. The source picks the remaining amount with
  a chain of \<open>or\<close>, which skips a numeric zero as falsy: for the payload
  \<open>{"left": 0}\<close> no remaining amount is seen and the state is Open.
\<close>

theorem order_state_numeric_zero_left_is_open:
  "order_state_from_status [(''left'', JInt 0)] = Inr OPEN"
  by code_simp

subsection \<open>Answering the venue's ping\<close>

text \<open>
  C9. For a ping that carries an \<open>id\<close>, the pong handed to \<open>ws.send\<close> carries the same
  \<open>id\<close>. The time of the ping is recorded in every case; the handler returns exactly
  when the send returns, and then the time of the pong is recorded too.
\<close>

theorem respond_to_ping_acknowledges:
  "has_key message ''id'' \<Longrightarrow>
   (case respond_to_ping t_ping t_pong outcome message us of
      (r, us') \<Rightarrow>
        ws_sent us' = ws_sent us @ [JDict [(''method'', JStr ''server.pong''),
                                           (''params'', JList []),
                                           (''id'', dict_get message ''id'')]]
        \<and> last_server_ping_ts us' = t_ping
        \<and> (r = Inr () \<longleftrightarrow> outcome = None)
        \<and> (r = Inr () \<longrightarrow> last_pong_sent_ts us' = t_pong))"
  by (auto simp: respond_to_ping_def next_message_id_def Let_def split: option.splits)

theorem respond_to_ping_acknowledges_witness:
  "has_key [(''method'', JStr ''server.ping''), (''id'', JInt 77)] ''id''
   \<and> (case respond_to_ping 100 101 None
             [(''method'', JStr ''server.ping''), (''id'', JInt 77)] init_user_stream of
        (r, us') \<Rightarrow>
          ws_sent us' = [JDict [(''method'', JStr ''server.pong''),
                                (''params'', JList []),
                                (''id'', JInt 77)]]
          \<and> last_server_ping_ts us' = 100
          \<and> r = Inr ()
          \<and> last_pong_sent_ts us' = 101)"
proof -
  have h: "has_key [(''method'', JStr ''server.ping''), (''id'', JInt 77)] ''id''"
    by (simp add: has_key_def)
  show ?thesis
    using h respond_to_ping_acknowledges [OF h, where t_ping = 100 and t_pong = 101 and outcome = None
        and us = init_user_stream]
    by (simp add: dict_get_def init_user_stream_def split: prod.splits)
qed

subsection \<open>Symbol cache\<close>

lemma map_of_swap_None:
  "map_of (map (\<lambda>(k, w). (w, k)) m) v = None \<Longrightarrow> v \<notin> snd ` set m"
  by (induction m) (auto split: if_splits)

text \<open>
  C10. For a trading pair with a hyphen that is not yet a value of the symbol map,
  \<open>exchange_symbol_associated_to_pair\<close> returns a symbol and records the binding, and
  \<open>trading_pair_associated_to_exchange_symbol\<close> on that symbol then returns the original
  trading pair from the map, leaving the map as it is.
\<close>

theorem symbol_round_trip:
  assumes "CHR ''-'' \<in> set tp"
    and "bidict_inverse_get (exchange_trading_pair_map st) tp = None"
  shows "\<exists>symbol st1.
           exchange_symbol_associated_to_pair tp st = (Inr symbol, st1)
           \<and> bidict_get (exchange_trading_pair_map st1) symbol = Some tp
           \<and> trading_pair_associated_to_exchange_symbol symbol st1 = (Inr tp, st1)"
proof -
  obtain base quote where sp: "rsplit1 CHR ''-'' tp = Some (base, quote)"
    using assms(1) by (auto simp: rsplit1_def)
  have nv: "tp \<notin> snd ` set (exchange_trading_pair_map st)"
    using assms(2) by (auto simp: bidict_inverse_get_def dest: map_of_swap_None)
  show ?thesis
    using assms(2) sp nv
    by (auto simp: exchange_symbol_associated_to_pair_def
        trading_pair_associated_to_exchange_symbol_def
        bidict_setitem_def bidict_get_def update_conv' Let_def)
qed

theorem symbol_round_trip_witness:
  "CHR ''-'' \<in> set ''BTC-USDT''
   \<and> bidict_inverse_get (exchange_trading_pair_map (init_exchange [''BTC-USDT''])) ''BTC-USDT'' = None
   \<and> (\<exists>symbol st1.
         exchange_symbol_associated_to_pair ''BTC-USDT'' (init_exchange [''BTC-USDT'']) = (Inr symbol, st1)
         \<and> bidict_get (exchange_trading_pair_map st1) symbol = Some ''BTC-USDT''
         \<and> trading_pair_associated_to_exchange_symbol symbol st1 = (Inr ''BTC-USDT'', st1))"
proof -
  have h1: "CHR ''-'' \<in> set ''BTC-USDT''" by simp
  have h2: "bidict_inverse_get (exchange_trading_pair_map (init_exchange [''BTC-USDT''])) ''BTC-USDT'' = None"
    by (simp add: bidict_inverse_get_def init_exchange_def)
  show ?thesis
    using h1 h2 symbol_round_trip [OF h1 h2] by blast
qed

subsection \<open>Balance reconciler\<close>

text \<open>
  The helper \<open>_decimal_from_value\<close> is defensive: it is total, and a value that
  \<open>Decimal\<close> rejects becomes zero.
\<close>

lemma decimal_from_value_unparseable:
  "Decimal_of_string (py_str v) = None \<Longrightarrow> decimal_from_value v = Finite 0"
  by (cases v) (simp_all add: decimal_from_value_def)

text \<open>
  C4. Numeric coercion is said to be defensive also for the balance snapshot. The
  helper \<open>_decimal_from_value\<close> is: it turns an unparseable value into zero. The
  snapshot loop of \<open>_update_balances\<close> does not use it: it calls \<open>Decimal(str(...))\<close>
  directly, so one unparseable amount raises \<open>InvalidOperation\<close> out of the whole
  snapshot and the entries after it (here BTC) are not stored.
\<close>

theorem update_balances_unparseable_amount_raises:
  "decimal_from_value (JStr ''abc'') = Finite 0
   \<and> update_balances ((init_exchange [''BTC-USDT''])\<lparr>rest := [Inr snapshot_unparseable]\<rparr>)
       = (Inl InvalidOperation,
          (init_exchange [''BTC-USDT''])\<lparr>requests := [(''/private/user'', JNone)]\<rparr>)"
  by code_simp

















subsection \<open>Identifier resolver\<close>

text \<open>
  C6. An entry whose embedded client id is the client id of the tracked order matches,
  whatever its side, amount and price say. An entry that matches by neither id and
  whose side, as the connector reads it, differs from the side of the tracked order
  does not match, whatever its amount and price say.
\<close>

theorem client_id_wins_and_contrary_side_loses:
  "(extract_client_order_id entry = Some (client_order_id tracked_order)
      \<longrightarrow> entry_matches_tracked_order tracked_order entry = Inr True)
   \<and> (extract_client_order_id entry \<noteq> Some (client_order_id tracked_order)
        \<and> (extract_exchange_order_id entry = None
             \<or> extract_exchange_order_id entry \<noteq> exchange_order_id tracked_order)
        \<and> coerce_entry_side (py_or (dict_get entry ''side'') (dict_get entry ''type'')) = Some side
        \<and> side \<noteq> (if trade_type tracked_order = BUY then SIDE_BUY else SIDE_SELL)
      \<longrightarrow> entry_matches_tracked_order tracked_order entry = Inr False)"
  by (auto simp: entry_matches_tracked_order_def Let_def)

theorem client_id_wins_and_contrary_side_loses_witness:
  "extract_client_order_id
       [(''clientOrderId'', JStr ''A''), (''side'', JStr ''sell''), (''amount'', JStr ''7'')]
     = Some (client_order_id order_A)
   \<and> entry_matches_tracked_order order_A
       [(''clientOrderId'', JStr ''A''), (''side'', JStr ''sell''), (''amount'', JStr ''7'')]
     = Inr True
   \<and> extract_client_order_id
       [(''id'', JInt 5), (''side'', JStr ''sell''), (''amount'', JStr ''2''), (''price'', JStr ''100'')]
     \<noteq> Some (client_order_id order_A)
   \<and> extract_exchange_order_id
       [(''id'', JInt 5), (''side'', JStr ''sell''), (''amount'', JStr ''2''), (''price'', JStr ''100'')]
     \<noteq> exchange_order_id order_A
   \<and> coerce_entry_side (py_or
         (dict_get [(''id'', JInt 5), (''side'', JStr ''sell''), (''amount'', JStr ''2''), (''price'', JStr ''100'')] ''side'')
         (dict_get [(''id'', JInt 5), (''side'', JStr ''sell''), (''amount'', JStr ''2''), (''price'', JStr ''100'')] ''type''))
     = Some 1
   \<and> 1 \<noteq> (if trade_type order_A = BUY then SIDE_BUY else SIDE_SELL)
   \<and> entry_matches_tracked_order order_A
       [(''id'', JInt 5), (''side'', JStr ''sell''), (''amount'', JStr ''2''), (''price'', JStr ''100'')]
     = Inr False"
proof -
  let ?e1 = "[(''clientOrderId'', JStr ''A''), (''side'', JStr ''sell''), (''amount'', JStr ''7'')]"
  let ?e2 = "[(''id'', JInt 5), (''side'', JStr ''sell''), (''amount'', JStr ''2''), (''price'', JStr ''100'')]"
  have h1: "extract_client_order_id ?e1 = Some (client_order_id order_A)"
    by code_simp
  have h2: "extract_client_order_id ?e2 \<noteq> Some (client_order_id order_A)"
    by code_simp
  have h3: "extract_exchange_order_id ?e2 \<noteq> exchange_order_id order_A"
    by code_simp
  have h4: "coerce_entry_side (py_or (dict_get ?e2 ''side'') (dict_get ?e2 ''type'')) = Some 1"
    by code_simp
  have h5: "1 \<noteq> (if trade_type order_A = BUY then SIDE_BUY else SIDE_SELL)"
    by code_simp
  show ?thesis
    using client_id_wins_and_contrary_side_loses [of ?e1 order_A 1]
      client_id_wins_and_contrary_side_loses [of ?e2 order_A 1] h1 h2 h3 h4 h5
    by blast
qed

text \<open>
  C7. When the symbol of the pair can be derived and the scan of the pending and of the
  finished listing ends without a matching entry, the refresh returns no id and leaves
  the tracked order as it is; it hands the order tracker one Failed update for the
  order when the age of the order exceeds 30 seconds, and no update otherwise.
\<close>

theorem refresh_unresolved_fails_old_orders_only:
  assumes "exchange_symbol_associated_to_pair (trading_pair tracked_order) st = (Inr symbol, st1)"
    and "find_order_entry_via_rest tracked_order symbol st1 = (Inr None, st2)"
  shows "case refresh_exchange_order_id tracked_order st of
           (result, tracked_order', st') \<Rightarrow>
             result = Inr None
             \<and> tracked_order' = tracked_order
             \<and> order_updates st' =
                 order_updates st2 @
                   (if 30 < max 0 (current_timestamp st2 - creation_timestamp tracked_order)
                    then [\<lparr>ou_trading_pair = trading_pair tracked_order, ou_new_state = FAILED,
                           ou_client_order_id = Some (client_order_id tracked_order),
                           ou_exchange_order_id = None\<rparr>]
                    else [])"
  using assms
  by (auto simp: refresh_exchange_order_id_def update_order_after_failure_def
      process_order_update_def Let_def)

theorem refresh_unresolved_fails_old_orders_only_witness:
  "exchange_symbol_associated_to_pair (trading_pair order_A)
       ((init_exchange [])\<lparr>current_timestamp := 50, rest := [Inr empty_listing, Inr empty_listing]\<rparr>)
     = (Inr ''BTC_USDT'',
        (init_exchange [])\<lparr>current_timestamp := 50, rest := [Inr empty_listing, Inr empty_listing],
                           exchange_trading_pair_map := [(''BTC_USDT'', ''BTC-USDT'')]\<rparr>)
   \<and> find_order_entry_via_rest order_A ''BTC_USDT''
       ((init_exchange [])\<lparr>current_timestamp := 50, rest := [Inr empty_listing, Inr empty_listing],
                          exchange_trading_pair_map := [(''BTC_USDT'', ''BTC-USDT'')]\<rparr>)
     = (Inr None,
        (init_exchange [])\<lparr>current_timestamp := 50, rest := [],
                           exchange_trading_pair_map := [(''BTC_USDT'', ''BTC-USDT'')],
                           requests := [(''/private/order/pending'', listing_request),
                                        (''/private/order/finished'', listing_request)]\<rparr>)
   \<and> (case refresh_exchange_order_id order_A
              ((init_exchange [])\<lparr>current_timestamp := 50,
                                 rest := [Inr empty_listing, Inr empty_listing]\<rparr>) of
         (result, tracked_order', st') \<Rightarrow>
           result = Inr None
           \<and> tracked_order' = order_A
           \<and> order_updates st' =
               [\<lparr>ou_trading_pair = ''BTC-USDT'', ou_new_state = FAILED,
                 ou_client_order_id = Some ''A'', ou_exchange_order_id = None\<rparr>])"
proof -
  let ?st = "(init_exchange [])\<lparr>current_timestamp := 50, rest := [Inr empty_listing, Inr empty_listing]\<rparr>"
  let ?st1 = "(init_exchange [])\<lparr>current_timestamp := 50, rest := [Inr empty_listing, Inr empty_listing],
                           exchange_trading_pair_map := [(''BTC_USDT'', ''BTC-USDT'')]\<rparr>"
  let ?st2 = "(init_exchange [])\<lparr>current_timestamp := 50, rest := [],
                           exchange_trading_pair_map := [(''BTC_USDT'', ''BTC-USDT'')],
                           requests := [(''/private/order/pending'', listing_request),
                                        (''/private/order/finished'', listing_request)]\<rparr>"
  have h1: "exchange_symbol_associated_to_pair (trading_pair order_A) ?st = (Inr ''BTC_USDT'', ?st1)"
    by code_simp
  have h2: "find_order_entry_via_rest order_A ''BTC_USDT'' ?st1 = (Inr None, ?st2)"
    by code_simp
  show ?thesis
    using refresh_unresolved_fails_old_orders_only [OF h1 h2] h1 h2
    by (simp add: order_A_def init_exchange_def split: prod.splits)
qed

subsection \<open>Trade fills\<close>

text \<open>
  For entries without an \<open>avg_price\<close> the fill price is as the spec states it: the price
  field when it is positive, and otherwise \<open>deal_money\<close> over the base amount.
\<close>

lemma fill_price_without_avg_price:
  "map_sum id (map_option fill_price)
     (trade_update_for_deal ''77'' order_A 0 (JDict deal_with_price)) = Inr (Some (Finite (21 / 2)))
   \<and> map_sum id (map_option fill_price)
     (trade_update_for_deal ''77'' order_A 1 (JDict deal_without_price)) = Inr (Some (Finite (21 / 4)))"
  by code_simp

text \<open>
  C3. The fill price of an entry without a positive price field is said to be
  \<open>deal_money\<close> over the base amount. The source divides \<open>avg_price or deal_money\<close> by
  the base amount, so that an \<open>avg_price\<close>, which is a price already, is divided by the
  amount. For amount 2, \<open>avg_price\<close> 10 and \<open>deal_money\<close> 20 the fill price is 5, where
  \<open>deal_money\<close> over the amount is 10, as is the average price; the update disagrees with
  itself, its price 5 times its base amount 2 is not its quote amount 20.
\<close>

theorem fill_price_divides_avg_price:
  "map_sum id (map_option (\<lambda>u. (fill_price u, fill_base_amount u, fill_quote_amount u)))
     (trade_update_for_deal ''77'' order_A 0 (JDict deal_with_avg_price))
     = Inr (Some (Finite 5, Finite 2, Finite 20))
   \<and> decimal_from_value (dict_get deal_with_avg_price ''deal_money'') = Finite 20
   \<and> decimal_from_value (dict_get deal_with_avg_price ''avg_price'') = Finite 10
   \<and> dec_div (Finite 20) (Finite 2) = Inr (Finite 10)
   \<and> dec_mul (Finite 5) (Finite 2) = Inr (Finite 10)"
  by code_simp

subsection \<open>Batch cancellation\<close>

lemma lookup_distinct_keys: "distinct (map fst (order_lookup_of chunk))"
proof -
  have "distinct (map fst m0) \<Longrightarrow>
        distinct (map fst (foldl (\<lambda>m c. AList.update (snd (snd c)) (fst c) m) m0 chunk))"
    for m0 :: "(string \<times> in_flight_order) list"
    by (induction chunk arbitrary: m0) (auto simp: distinct_update)
  then show ?thesis by (simp add: order_lookup_of_def)
qed

lemma foldl_update_other:
  "i \<notin> (\<lambda>c. snd (snd c)) ` set chunk \<Longrightarrow>
   map_of (foldl (\<lambda>m c. AList.update (snd (snd c)) (fst c) m) m0 chunk) i = map_of m0 i"
  by (induction chunk arbitrary: m0) (auto simp: update_conv')

lemma foldl_update_member:
  "distinct (map (\<lambda>c. snd (snd c)) chunk) \<Longrightarrow> c \<in> set chunk \<Longrightarrow>
   map_of (foldl (\<lambda>m c. AList.update (snd (snd c)) (fst c) m) m0 chunk) (snd (snd c)) = Some (fst c)"
  by (induction chunk arbitrary: m0) (auto simp: update_conv' foldl_update_other)

lemma lookup_member:
  "distinct (map (\<lambda>c. snd (snd c)) chunk) \<Longrightarrow> (order', market, venue_id) \<in> set chunk \<Longrightarrow>
   map_of (order_lookup_of chunk) venue_id = Some order'"
  using foldl_update_member [of chunk "(order', market, venue_id)" "[]"]
  by (simp add: order_lookup_of_def)

lemma lookup_Some_member:
  assumes "distinct (map (\<lambda>c. snd (snd c)) chunk)"
    and "map_of (order_lookup_of chunk) venue_id = Some order'"
  shows "\<exists>market. (order', market, venue_id) \<in> set chunk"
proof (cases "venue_id \<in> (\<lambda>c. snd (snd c)) ` set chunk")
  case True
  then obtain o1 m1 where c: "(o1, m1, venue_id) \<in> set chunk" by force
  from lookup_member [OF assms(1) c] assms(2) have "o1 = order'" by simp
  with c show ?thesis by blast
next
  case False
  from foldl_update_other [OF False, of "[]"] assms(2)
  show ?thesis by (simp add: order_lookup_of_def)
qed

lemma mem_map_filter:
  "y \<in> set (List.map_filter f xs) \<longleftrightarrow> (\<exists>x \<in> set xs. f x = Some y)"
  by (induction xs) (auto split: option.splits)

lemma scan_closed_form:
  "(case scan_result_entries lookup entries acknowledged successful failed st of
      (acknowledged', successful', failed', st') \<Rightarrow>
        acknowledged' = acknowledged @ List.map_filter entry_ack entries
        \<and> successful' = successful @ List.map_filter (entry_order lookup True) entries
        \<and> failed' = failed @ List.map_filter (entry_order lookup False) entries)"
proof (induction entries arbitrary: acknowledged successful failed st)
  case Nil
  then show ?case by simp
next
  case (Cons entry entries)
  show ?case
  proof (cases entry)
    case (JDict d)
    show ?thesis
    proof (cases "entry_venue_id d = []")
      case True
      then have "py_str (py_or (dict_get d ''order_id'') (JStr [])) = []"
        by (simp add: entry_venue_id_def)
      with JDict True Cons.IH [of acknowledged successful failed st] show ?thesis
        by (simp add: entry_ack_def entry_order_def)
    next
      case False
      then have ne: "py_str (py_or (dict_get d ''order_id'') (JStr [])) \<noteq> []"
        and eq: "py_str (py_or (dict_get d ''order_id'') (JStr [])) = entry_venue_id d"
        by (simp_all add: entry_venue_id_def)
      show ?thesis
      proof (cases "map_of lookup (entry_venue_id d)")
        case None
        with JDict False ne eq
          Cons.IH [of "acknowledged @ [entry_venue_id d]" successful failed st]
        show ?thesis
          by (simp add: entry_ack_def entry_order_def Let_def)
      next
        case (Some o1)
        show ?thesis
        proof (cases "is_truthy (dict_get d ''result'')")
          case True
          with JDict False ne eq Some
            Cons.IH [of "acknowledged @ [entry_venue_id d]" "successful @ [o1]" failed
              "apply_cancel_update o1 st"]
          show ?thesis
            by (simp add: entry_ack_def entry_order_def Let_def)
        next
          case nt: False
          with JDict False ne eq Some
            Cons.IH [of "acknowledged @ [entry_venue_id d]" successful "failed @ [o1]" st]
          show ?thesis
            by (simp add: entry_ack_def entry_order_def Let_def)
        qed
      qed
    qed
  qed (use Cons.IH [of acknowledged successful failed st] in
        \<open>simp_all add: entry_ack_def entry_order_def\<close>)
qed


text \<open>
  What \<open>_execute_batch_cancel\<close> does guarantee for a chunk whose members have pairwise
  distinct venue ids: when the response is accepted and has entries, a member with a
  non-empty venue id is a success exactly when an entry of the response acknowledges
  its id, and a member that is not a success is on the failed list, from which
  \<open>cancel_all\<close> feeds the individual cancels.
\<close>

lemma batch_chunk_with_distinct_venue_ids:
  assumes ids: "distinct (map (\<lambda>c. snd (snd c)) chunk)"
    and orders: "distinct (map fst chunk)"
    and post: "rest st = Inr response # rs"
    and res: "extract_result response = Inr r"
    and entries: "extract_entries r \<noteq> []"
    and mem: "(order', market, venue_id) \<in> set chunk"
    and ne: "venue_id \<noteq> []"
  shows "case batch_cancel_chunks [chunk] [] [] st of
           (Inr (successful, failed), st') \<Rightarrow>
             (order' \<in> set successful
                \<longleftrightarrow> (\<exists>entry \<in> set (extract_entries r). acknowledged_by venue_id entry))
             \<and> (order' \<notin> set successful \<longrightarrow> order' \<in> set failed)
         | (Inl e, st') \<Rightarrow> False"
proof -
  let ?L = "order_lookup_of chunk"
  let ?E = "extract_entries r"
  let ?S = "List.map_filter (entry_order ?L True) ?E"
  let ?A = "List.map_filter entry_ack ?E"
  let ?F = "List.map_filter (entry_order ?L False) ?E
            @ map snd (filter (\<lambda>kv. fst kv \<notin> set ?A) ?L)"
  let ?st1 = "st\<lparr>requests := requests st @
                [(BULK_CANCEL_PATH_URL,
                  JDict [(''orders_json'', JList (map (\<lambda>c. payload_json (snd c)) chunk))])],
              rest := rs\<rparr>"
  obtain a' s' f' st2 where scan: "scan_result_entries ?L ?E [] [] [] ?st1 = (a', s', f', st2)"
    by (cases "scan_result_entries ?L ?E [] [] [] ?st1") auto
  from scan_closed_form [where lookup = ?L and entries = ?E and acknowledged = "[]"
      and successful = "[]" and failed = "[]" and st = ?st1] scan
  have closed: "a' = ?A" "s' = ?S" "f' = List.map_filter (entry_order ?L False) ?E"
    by simp_all
  have run: "batch_cancel_chunks [chunk] [] [] st = (Inr (?S, ?F), st2)"
    using post res entries scan closed
    by (simp add: api_post_def Let_def)
  have look: "map_of ?L venue_id = Some order'"
    using lookup_member [OF ids mem] .
  have S_iff: "order' \<in> set ?S \<longleftrightarrow> (\<exists>entry \<in> set ?E. acknowledged_by venue_id entry)"
  proof
    assume "order' \<in> set ?S"
    then obtain entry where e: "entry \<in> set ?E" "entry_order ?L True entry = Some order'"
      by (auto simp: mem_map_filter)
    from e(2) obtain d where ed: "entry = JDict d"
      by (cases entry) (auto simp: entry_order_def)
    with e have d: "entry = JDict d" "entry_venue_id d \<noteq> []"
      "is_truthy (dict_get d ''result'')" "map_of ?L (entry_venue_id d) = Some order'"
      by (auto simp: entry_order_def split: if_splits)
    from lookup_Some_member [OF ids d(4)]
    obtain m' where "(order', m', entry_venue_id d) \<in> set chunk" by blast
    with mem orders have "entry_venue_id d = venue_id"
      by (metis eq_key_imp_eq_value prod.inject)
    with d e show "\<exists>entry \<in> set ?E. acknowledged_by venue_id entry"
      by (intro bexI [of _ "JDict d"]) (simp_all add: acknowledged_by_def)
  next
    assume "\<exists>entry \<in> set ?E. acknowledged_by venue_id entry"
    then obtain entry where en: "entry \<in> set ?E" "acknowledged_by venue_id entry"
      by blast
    from en(2) obtain d where ed: "entry = JDict d"
      by (cases entry) (auto simp: acknowledged_by_def)
    with en have "JDict d \<in> set ?E" "entry_venue_id d = venue_id"
      "is_truthy (dict_get d ''result'')"
      by (auto simp: acknowledged_by_def)
    with ne look have "entry_order ?L True (JDict d) = Some order'"
      by (simp add: entry_order_def)
    with \<open>JDict d \<in> set ?E\<close> show "order' \<in> set ?S"
      by (auto simp: mem_map_filter)
  qed
  have F_if: "order' \<in> set ?F" if "order' \<notin> set ?S"
  proof (cases "venue_id \<in> set ?A")
    case True
    then obtain entry where e: "entry \<in> set ?E" "entry_ack entry = Some venue_id"
      by (auto simp: mem_map_filter)
    from e(2) obtain d where ed: "entry = JDict d"
      by (cases entry) (auto simp: entry_ack_def)
    with e have d: "entry = JDict d" "entry_venue_id d = venue_id"
      by (auto simp: entry_ack_def split: if_splits)
    have "\<not> is_truthy (dict_get d ''result'')"
      using that S_iff e(1) d by (auto simp: acknowledged_by_def)
    with d ne look have "entry_order ?L False entry = Some order'"
      by (simp add: entry_order_def)
    with e(1) show ?thesis by (auto simp: mem_map_filter)
  next
    case False
    from look have "(venue_id, order') \<in> set ?L" by (rule map_of_SomeD)
    with False show ?thesis by force
  qed
  show ?thesis
    using run S_iff F_if by simp
qed

text \<open>
  C5. Every member of a chunk is said to be a success exactly when the response has an
  entry for its requested venue id with a truthy flag, and to go to the fallback list
  otherwise. The source looks the entries up in a dict keyed by the requested venue id,
  which keeps one order per id. When two members of a chunk have the same venue id
  (here B and C, both \<open>1\<close>), only the later one is ever found: with a truthy entry for
  \<open>1\<close> only C is a success, and with a rejecting entry, or with a failed request, only
  C goes to the fallback list. B is in neither list.
\<close>

theorem batch_cancel_loses_member_with_shared_venue_id:
  "fst (execute_batch_cancel
          [(order_B, (''BTC_USDT'', ''1'')), (order_C, (''BTC_USDT'', ''1''))]
          ((init_exchange [''BTC-USDT''])\<lparr>rest := [Inr (bulk_response [cancel_entry ''1'' True])]\<rparr>))
     = Inr ([order_C], [])
   \<and> fst (execute_batch_cancel
          [(order_B, (''BTC_USDT'', ''1'')), (order_C, (''BTC_USDT'', ''1''))]
          ((init_exchange [''BTC-USDT''])\<lparr>rest := [Inr (bulk_response [cancel_entry ''1'' False])]\<rparr>))
     = Inr ([], [order_C])
   \<and> fst (execute_batch_cancel
          [(order_B, (''BTC_USDT'', ''1'')), (order_C, (''BTC_USDT'', ''1''))]
          ((init_exchange [''BTC-USDT''])\<lparr>rest := [Inl IOError]\<rparr>))
     = Inr ([], [order_C])
   \<and> order_B \<noteq> order_C"
  by code_simp

text \<open>
  What \<open>cancel_all\<close> does guarantee when it returns: every open order has a result, and
  an order that is reported as failed is reported as failed once and has no success
  beside it.
\<close>

lemma failed_member:
  "CancellationResult j False \<in> set (failed_cancellations xs) \<longleftrightarrow> j \<in> set xs"
  "CancellationResult j True \<notin> set (failed_cancellations xs)"
  by (auto simp: failed_cancellations_def)

lemma successful_member:
  "CancellationResult j False \<notin> set (map successful_cancellation ks)"
  "CancellationResult j True \<in> set (map successful_cancellation ks) \<longleftrightarrow> Inr j \<in> set ks"
  by (induction ks) (auto simp: successful_cancellation_def split: sum.splits)

lemma batch_successful_member:
  "CancellationResult j False \<notin> set (map (\<lambda>x. CancellationResult (f x) True) xs)"
  "CancellationResult j True \<in> set (map (\<lambda>x. CancellationResult (f x) True) xs) \<longleftrightarrow> j \<in> f ` set xs"
  by (induction xs) auto

lemma cancel_all_covers_open_orders:
  assumes "order' \<in> set in_flight" and "\<not> is_done order'"
    and "fst (cancel_all in_flight st) = Inr results"
  shows "\<exists>ok. CancellationResult (client_order_id order') ok \<in> set results"
proof -
  have "client_order_id order' \<in> set (remdups (map client_order_id (filter (\<lambda>x. \<not> is_done x) in_flight)))"
    using assms(1,2) by auto
  moreover have "filter (\<lambda>x. \<not> is_done x) in_flight \<noteq> []"
    using assms(1,2) by (auto simp: filter_empty_conv)
  ultimately have "CancellationResult (client_order_id order') True \<in> set results
      \<or> CancellationResult (client_order_id order') False \<in> set results"
    using assms(3)
    by (auto simp: cancel_all_def Let_def failed_member successful_member batch_successful_member
        simp del: set_map
        split: prod.splits sum.splits if_splits)
  then show ?thesis by blast
qed

lemma count_failed_distinct:
  "distinct xs \<Longrightarrow> j \<in> set xs \<Longrightarrow>
   count_list (failed_cancellations xs) (CancellationResult j False) = 1"
  by (induction xs) (auto simp: image_iff failed_cancellations_def)

lemma count_failed_among_batch_successes:
  "count_list (map (\<lambda>x. CancellationResult (f x) True) xs) (CancellationResult j False) = 0"
  by (induction xs) auto

lemma count_failed_among_fallback_successes:
  "count_list (map successful_cancellation ks) (CancellationResult j False) = 0"
  by (induction ks) (auto simp: successful_cancellation_def split: sum.splits)

lemma cancel_all_failure_is_single:
  assumes "fst (cancel_all in_flight st) = Inr results"
    and "CancellationResult i False \<in> set results"
  shows "CancellationResult i True \<notin> set results
         \<and> count_list results (CancellationResult i False) = 1"
  using assms
  by (auto simp: cancel_all_def Let_def count_failed_distinct count_failed_among_batch_successes
      count_failed_among_fallback_successes failed_member successful_member
      batch_successful_member
      simp del: set_map
      split: prod.splits sum.splits if_splits)

text \<open>
  C1. \<open>cancel_all\<close> is said to return exactly one result per open order. Failures are
  taken from a set of pending ids, but the successes of the batch are appended once per
  acknowledging entry of the response: for one open order B and a response that
  acknowledges its venue id twice, the result holds two successes for B.
\<close>

theorem cancel_all_duplicates_success:
  "fst (cancel_all [order_B]
          ((init_exchange [''BTC-USDT''])
             \<lparr>rest := [Inr (bulk_response [cancel_entry ''1'' True, cancel_entry ''1'' True])]\<rparr>))
     = Inr [CancellationResult ''B'' True, CancellationResult ''B'' True]"
  by code_simp

end
